theory Spec2Isabelle
  imports Main "HOL-Library.Word"
begin

section \<open>The zaplog package: a leveled logging facade over zap\<close>

text \<open>
  The development embeds \<^verbatim>\<open>zaplog/logger.go\<close>. The package keeps one \<^verbatim>\<open>Logger\<close>
  struct, four file sinks in package variables, and two console sinks. Structs are
  records, the \<^verbatim>\<open>*Options\<close> pointer held by the logger is an address into an explicit
  store, a panic is the left summand of the result, and what the engine and the rotation
  backends decide on their own (whether \<^verbatim>\<open>Build\<close> or \<^verbatim>\<open>rotatelogs.New\<close> fail, what
  the working directory is) is read from an environment record. Where a property depends
  on what the libraries do with the values the package hands them (the levels of the
  engine's two base profiles, the fan-out of a record to the cores, the file name the
  rotation backend derives from its pattern), that rule is written out as a definition
  and marked as the library's.
\<close>

subsection \<open>Levels and durations\<close>

text \<open>\<^verbatim>\<open>zapcore.Level\<close> is an \<^verbatim>\<open>int8\<close>; the four severities used by the package.\<close>

type_synonym Level = "8 word"

definition DebugLevel :: Level where "DebugLevel = - 1"
definition InfoLevel :: Level where "InfoLevel = 0"
definition WarnLevel :: Level where "WarnLevel = 1"
definition ErrorLevel :: Level where "ErrorLevel = 2"

text \<open>\<^verbatim>\<open>time.Duration\<close> is an \<^verbatim>\<open>int64\<close> count of nanoseconds.\<close>

type_synonym Duration = "64 word"

definition Second :: Duration where "Second = 1000000000"
definition Minute :: Duration where "Minute = 60 * Second"
definition Hour :: Duration where "Hour = 60 * Minute"

subsection \<open>Configuration records\<close>

datatype TimeEncoder =
  NoTimeEncoder | ISO8601TimeEncoder | EpochTimeEncoder | timeEncoder | timeUnixNano

datatype EncoderProfile = ZeroEncoderConfig | DevelopmentEncoderConfig | ProductionEncoderConfig

record EncoderConfig =
  profile :: EncoderProfile
  EncodeTime :: TimeEncoder

text \<open>
  \<^verbatim>\<open>zap.Config\<close>, with the fields the package reads or writes. \<^verbatim>\<open>Level\<close> is an
  \<^verbatim>\<open>AtomicLevel\<close>, a pointer to the level: \<open>None\<close> is the zero value, whose pointer is nil.
  The engine's own development flag is called \<open>zapDevelopment\<close> here, since
  \<^verbatim>\<open>Options\<close> has a field \<^verbatim>\<open>Development\<close> of its own that hides it.
\<close>

record Config =
  Level :: "Level option"
  zapDevelopment :: bool
  Encoding :: string
  EncoderConfig :: EncoderConfig
  OutputPaths :: "string list"
  ErrorOutputPaths :: "string list"

text \<open>Go's \<^verbatim>\<open>int\<close> is taken as 64 bits wide.\<close>

record Options =
  LogLevel :: string
  LogFileDir :: string
  AppName :: string
  ErrorFileName :: string
  WarnFileName :: string
  InfoFileName :: string
  DebugFileName :: string
  MaxSize :: "64 word"
  MaxBackups :: "64 word"
  MaxAge :: "64 word"
  CutType :: "64 word"
  Development :: bool
  Config :: Config

definition zeroEncoderConfig :: EncoderConfig where
  "zeroEncoderConfig = \<lparr>profile = ZeroEncoderConfig, EncodeTime = NoTimeEncoder\<rparr>"

definition zeroConfig :: Config where
  "zeroConfig = \<lparr>Level = None, zapDevelopment = False, Encoding = [],
     EncoderConfig = zeroEncoderConfig, OutputPaths = [], ErrorOutputPaths = []\<rparr>"

definition zeroOptions :: Options where
  "zeroOptions = \<lparr>LogLevel = [], LogFileDir = [], AppName = [], ErrorFileName = [],
     WarnFileName = [], InfoFileName = [], DebugFileName = [], MaxSize = 0, MaxBackups = 0,
     MaxAge = 0, CutType = 0, Development = False, Config = zeroConfig\<rparr>"

text \<open>
  The two base profiles of the engine, as \<^verbatim>\<open>zap.NewDevelopmentConfig\<close> and
  \<^verbatim>\<open>zap.NewProductionConfig\<close> return them: the development profile starts at debug
  level, the production profile at info level.
\<close>

definition NewDevelopmentConfig :: Config where
  "NewDevelopmentConfig = \<lparr>Level = Some DebugLevel, zapDevelopment = True,
     Encoding = ''console'',
     EncoderConfig = \<lparr>profile = DevelopmentEncoderConfig, EncodeTime = ISO8601TimeEncoder\<rparr>,
     OutputPaths = [''stderr''], ErrorOutputPaths = [''stderr'']\<rparr>"

definition NewProductionConfig :: Config where
  "NewProductionConfig = \<lparr>Level = Some InfoLevel, zapDevelopment = False,
     Encoding = ''json'',
     EncoderConfig = \<lparr>profile = ProductionEncoderConfig, EncodeTime = EpochTimeEncoder\<rparr>,
     OutputPaths = [''stderr''], ErrorOutputPaths = [''stderr'']\<rparr>"

text \<open>\<^verbatim>\<open>AtomicLevel.SetLevel\<close>, on the level a constructor has just allocated.\<close>

definition SetLevel :: "Level \<Rightarrow> Config \<Rightarrow> Config" where
  "SetLevel l z = z\<lparr>Level := Some l\<rparr>"

subsection \<open>Sinks and cores\<close>

text \<open>The \<^verbatim>\<open>lumberjack.Logger\<close> literal of the size-based path.\<close>

record Lumberjack =
  ljFilename :: string
  ljMaxSize :: "64 word"
  ljMaxBackups :: "64 word"
  ljMaxAge :: "64 word"
  ljCompress :: bool
  ljLocalTime :: bool

text \<open>The arguments of \<^verbatim>\<open>rotatelogs.New\<close> on the time-based path.\<close>

record RotateLogs =
  pattern :: string
  WithLinkName :: string
  WithMaxAge :: Duration
  WithRotationTime :: Duration

text \<open>
  A \<^verbatim>\<open>zapcore.WriteSyncer\<close>. \<open>NilWS\<close> is the zero value of the package variables;
  \<open>NilRotateLogsWS\<close> is \<^verbatim>\<open>AddSync\<close> of the nil \<^verbatim>\<open>*RotateLogs\<close> that
  \<^verbatim>\<open>rotatelogs.New\<close> returns together with an error.
\<close>

datatype WriteSyncer =
  NilWS
  | LumberjackWS Lumberjack
  | RotateLogsWS RotateLogs
  | NilRotateLogsWS
  | Stdout
  | Stderr

definition debugConsoleWS :: WriteSyncer where "debugConsoleWS = Stdout"
definition errorConsoleWS :: WriteSyncer where "errorConsoleWS = Stderr"

datatype Encoder = JSONEncoder EncoderConfig | ConsoleEncoder EncoderConfig

text \<open>The four level enablers of \<^verbatim>\<open>cores\<close>, as tags; \<open>enabled\<close> runs one.\<close>

datatype Priority = errPriority | warnPriority | infoPriority | debugPriority

record Core =
  enc :: Encoder
  out :: WriteSyncer
  enab :: Priority

text \<open>
  The severity a level enabler is built for, and its body: \<open>minl\<close> is what
  \<^verbatim>\<open>lg.zapConfig.Level.Level()\<close> returns when the enabler runs. The subtraction is
  \<^verbatim>\<open>int8\<close> arithmetic and wraps; both comparisons are signed.
\<close>

fun severity :: "Priority \<Rightarrow> Level" where
  "severity errPriority = ErrorLevel"
| "severity warnPriority = WarnLevel"
| "severity infoPriority = InfoLevel"
| "severity debugPriority = DebugLevel"

fun enabled :: "Priority \<Rightarrow> Level \<Rightarrow> Level \<Rightarrow> bool" where
  "enabled errPriority minl lvl = (ErrorLevel <=s lvl \<and> - 1 <s ErrorLevel - minl)"
| "enabled warnPriority minl lvl = (WarnLevel <=s lvl \<and> - 1 <s WarnLevel - minl)"
| "enabled infoPriority minl lvl = (InfoLevel <=s lvl \<and> - 1 <s InfoLevel - minl)"
| "enabled debugPriority minl lvl = (DebugLevel <=s lvl \<and> - 1 <s DebugLevel - minl)"

subsection \<open>The package state\<close>

datatype panic = NilPointerDereference | BuildError

text \<open>
  \<^verbatim>\<open>Logger\<close>: the embedded \<^verbatim>\<open>*zap.SugaredLogger\<close> is the fan-out of the cores it
  was built with (\<open>None\<close> is nil), \<^verbatim>\<open>Opts\<close> is a pointer (\<open>None\<close> is nil).
\<close>

record Logger =
  SugaredLogger :: "Core list option"
  Opts :: "nat option"
  zapConfig :: Config
  inited :: bool

text \<open>One line written to a sink: the sink, the encoder, the level and the message.\<close>

type_synonym Write = "WriteSyncer \<times> Encoder \<times> Level \<times> string"

text \<open>
  The package variables, the store of \<^verbatim>\<open>Options\<close> structs that pointers refer to, and
  the lines written so far.
\<close>

record State =
  logger :: Logger
  heap :: "nat \<Rightarrow> Options"
  errWS :: WriteSyncer
  warnWS :: WriteSyncer
  infoWS :: WriteSyncer
  debugWS :: WriteSyncer
  written :: "Write list"

text \<open>
  What the code obtains from outside: \<open>abs_dot\<close> is the path returned by
  \<^verbatim>\<open>filepath.Abs(filepath.Dir(filepath.Join(".")))\<close> (the working directory; empty when
  the call fails, its error being dropped), \<open>Build_fails\<close> says whether the engine's
  \<^verbatim>\<open>Build\<close> returns an error, \<open>rotatelogs_fails\<close> whether \<^verbatim>\<open>rotatelogs.New\<close> does.
\<close>

record Env =
  abs_dot :: string
  Build_fails :: "Config \<Rightarrow> bool"
  rotatelogs_fails :: "RotateLogs \<Rightarrow> bool"

text \<open>The path separator: \<^verbatim>\<open>sp = string(filepath.Separator)\<close>, a slash.\<close>

definition sp :: string where "sp = ''/''"

text \<open>
  The package's \<^verbatim>\<open>init\<close> function: the logger starts with a pointer to an empty
  \<^verbatim>\<open>Options\<close>, stored here at address 0.
\<close>

definition package_init :: "(nat \<Rightarrow> Options) \<Rightarrow> State" where
  "package_init h =
     \<lparr>logger = \<lparr>SugaredLogger = None, Opts = Some 0, zapConfig = zeroConfig, inited = False\<rparr>,
      heap = h(0 := zeroOptions),
      errWS = NilWS, warnWS = NilWS, infoWS = NilWS, debugWS = NilWS, written = []\<rparr>"

subsection \<open>Loading the configuration\<close>

text \<open>
  \<^verbatim>\<open>loadCfg\<close> (lines 85 to 141), in the order of the source. Its first half assigns
  \<^verbatim>\<open>lg.zapConfig\<close>: the base profile chosen by the development flag, with the
  package's time encoder; the output paths; the level switch, which has no default
  branch.
\<close>

definition loadCfg_zapConfig :: "Options \<Rightarrow> Config" where
  "loadCfg_zapConfig o0 =
     (let z0 = (if Development o0
                then NewDevelopmentConfig
                       \<lparr>EncoderConfig := (EncoderConfig NewDevelopmentConfig)
                          \<lparr>EncodeTime := timeEncoder\<rparr>\<rparr>
                else NewProductionConfig
                       \<lparr>EncoderConfig := (EncoderConfig NewProductionConfig)
                          \<lparr>EncodeTime := timeUnixNano\<rparr>\<rparr>);
          z1 = (if length (OutputPaths (Config o0)) = 0
                then z0\<lparr>OutputPaths := [''stdout'']\<rparr> else z0);
          z2 = (if length (ErrorOutputPaths (Config o0)) = 0
                then z1\<lparr>ErrorOutputPaths := [''stderr'']\<rparr> else z1)
      in if LogLevel o0 = ''debug'' then SetLevel DebugLevel z2
         else if LogLevel o0 = ''info'' then SetLevel InfoLevel z2
         else if LogLevel o0 = ''warn'' then SetLevel WarnLevel z2
         else if LogLevel o0 = ''error'' then SetLevel ErrorLevel z2
         else z2)"

text \<open>
  Its second half writes the defaults into the \<^verbatim>\<open>Options\<close> struct, one field after
  the other.
\<close>

definition loadCfg_defaults :: "Env \<Rightarrow> Options \<Rightarrow> Options" where
  "loadCfg_defaults env o0 =
     (let o1 = (if LogFileDir o0 = []
                then o0\<lparr>LogFileDir := abs_dot env @ sp @ ''logs'' @ sp\<rparr> else o0);
          o2 = (if AppName o1 = [] then o1\<lparr>AppName := ''app''\<rparr> else o1);
          o3 = (if ErrorFileName o2 = [] then o2\<lparr>ErrorFileName := ''error.log''\<rparr> else o2);
          o4 = (if WarnFileName o3 = [] then o3\<lparr>WarnFileName := ''warn.log''\<rparr> else o3);
          o5 = (if InfoFileName o4 = [] then o4\<lparr>InfoFileName := ''info.log''\<rparr> else o4);
          o6 = (if DebugFileName o5 = [] then o5\<lparr>DebugFileName := ''debug.log''\<rparr> else o5);
          o7 = (if MaxSize o6 = 0 then o6\<lparr>MaxSize := 100\<rparr> else o6);
          o8 = (if MaxBackups o7 = 0 then o7\<lparr>MaxBackups := 30\<rparr> else o7)
      in if MaxAge o8 = 0 then o8\<lparr>MaxAge := 30\<rparr> else o8)"

text \<open>
  The method itself: both halves work through the pointer \<^verbatim>\<open>lg.Opts\<close>, and a nil
  pointer panics at the first field read.
\<close>

definition loadCfg :: "Env \<Rightarrow> State \<Rightarrow> panic + State" where
  "loadCfg env s =
     (case Opts (logger s) of
        None \<Rightarrow> Inl NilPointerDereference
      | Some a \<Rightarrow>
          Inr (s\<lparr>logger := (logger s)\<lparr>zapConfig := loadCfg_zapConfig (heap s a)\<rparr>,
                 heap := (heap s)(a := loadCfg_defaults env (heap s a))\<rparr>))"

subsection \<open>Building the sinks\<close>

text \<open>
  The closure \<^verbatim>\<open>f\<close> of \<^verbatim>\<open>setSyncers\<close> (lines 144 to 165). On the size-based path the sink is a struct
  literal and nothing can fail. On the time-based path the error of
  \<^verbatim>\<open>rotatelogs.New\<close> is assigned to the blank identifier and the returned pointer, nil
  on failure, is wrapped all the same.
\<close>

definition setSyncers_f :: "Env \<Rightarrow> Options \<Rightarrow> string \<Rightarrow> WriteSyncer" where
  "setSyncers_f env opts fName =
     (if CutType opts = 0
      then LumberjackWS
             \<lparr>ljFilename = LogFileDir opts @ sp @ AppName opts @ ''-'' @ fName,
              ljMaxSize = MaxSize opts,
              ljMaxBackups = MaxBackups opts,
              ljMaxAge = MaxAge opts,
              ljCompress = True,
              ljLocalTime = True\<rparr>
      else let logf =
                 \<lparr>pattern = LogFileDir opts @ sp @ AppName opts @ ''-'' @ fName @ ''.%Y_%m%d_%H'',
                  WithLinkName = LogFileDir opts @ sp @ AppName opts @ ''-'' @ fName,
                  WithMaxAge = MaxAge opts * 24 * Hour,
                  WithRotationTime = Minute\<rparr>
           in if rotatelogs_fails env logf then NilRotateLogsWS else RotateLogsWS logf)"

definition setSyncers :: "Env \<Rightarrow> State \<Rightarrow> panic + State" where
  "setSyncers env s =
     (case Opts (logger s) of
        None \<Rightarrow> Inl NilPointerDereference
      | Some a \<Rightarrow>
          let s1 = s\<lparr>errWS := setSyncers_f env (heap s a) (ErrorFileName (heap s a))\<rparr>;
              s2 = s1\<lparr>warnWS := setSyncers_f env (heap s a) (WarnFileName (heap s a))\<rparr>;
              s3 = s2\<lparr>infoWS := setSyncers_f env (heap s a) (InfoFileName (heap s a))\<rparr>;
              s4 = s3\<lparr>debugWS := setSyncers_f env (heap s a) (DebugFileName (heap s a))\<rparr>
          in Inr s4)"

subsection \<open>The file a time-based sink writes to\<close>












subsection \<open>Composing the cores\<close>

text \<open>
  \<^verbatim>\<open>cores\<close>: four file cores with the JSON encoder, and in development mode four
  console cores after them. The option it returns replaces the engine's core by the
  fan-out of this list.
\<close>

definition cores :: "State \<Rightarrow> panic + Core list" where
  "cores s =
     (let fileEncoder = JSONEncoder (EncoderConfig (zapConfig (logger s)));
          encoderConfig = (EncoderConfig NewDevelopmentConfig)\<lparr>EncodeTime := timeEncoder\<rparr>;
          consoleEncoder = ConsoleEncoder encoderConfig;
          cs = [\<lparr>enc = fileEncoder, out = errWS s, enab = errPriority\<rparr>,
                \<lparr>enc = fileEncoder, out = warnWS s, enab = warnPriority\<rparr>,
                \<lparr>enc = fileEncoder, out = infoWS s, enab = infoPriority\<rparr>,
                \<lparr>enc = fileEncoder, out = debugWS s, enab = debugPriority\<rparr>]
      in case Opts (logger s) of
           None \<Rightarrow> Inl NilPointerDereference
         | Some a \<Rightarrow>
             if Development (heap s a)
             then Inr (cs @
                    [\<lparr>enc = consoleEncoder, out = errorConsoleWS, enab = errPriority\<rparr>,
                     \<lparr>enc = consoleEncoder, out = debugConsoleWS, enab = warnPriority\<rparr>,
                     \<lparr>enc = consoleEncoder, out = debugConsoleWS, enab = infoPriority\<rparr>,
                     \<lparr>enc = consoleEncoder, out = debugConsoleWS, enab = debugPriority\<rparr>])
             else Inr cs)"

text \<open>
  Whether \<^verbatim>\<open>zap.Config.Build\<close> returns an error: it does for a configuration without a
  known encoder name or without a level, as the zero \<^verbatim>\<open>zap.Config\<close> is, and otherwise
  when the environment says so (a sink that cannot be opened).
\<close>

definition Build_error :: "Env \<Rightarrow> Config \<Rightarrow> bool" where
  "Build_error env z =
     ((Encoding z \<noteq> ''json'' \<and> Encoding z \<noteq> ''console'') \<or> Level z = None \<or> Build_fails env z)"

text \<open>
  The method \<^verbatim>\<open>(lg *Logger) init\<close> (lines 74 to 83): the sinks, then the cores, then
  \<^verbatim>\<open>Build\<close>, whose error panics on either rotation path. The deferred \<^verbatim>\<open>Sync\<close> writes
  nothing.
\<close>

definition init :: "Env \<Rightarrow> State \<Rightarrow> panic + State" where
  "init env s =
     (case setSyncers env s of
        Inl e \<Rightarrow> Inl e
      | Inr s1 \<Rightarrow>
          (case cores s1 of
             Inl e \<Rightarrow> Inl e
           | Inr cs \<Rightarrow>
               if Build_error env (zapConfig (logger s1)) then Inl BuildError
               else Inr (s1\<lparr>logger := (logger s1)\<lparr>SugaredLogger := Some cs\<rparr>\<rparr>)))"

subsection \<open>Logging a record\<close>

text \<open>
  The fan-out core asks every core whether its enabler accepts the level and writes the
  record to the sink of each one that does, in order.
\<close>

definition accepting :: "Core list \<Rightarrow> Level \<Rightarrow> Level \<Rightarrow> Core list" where
  "accepting cs minl lvl = filter (\<lambda>c. enabled (enab c) minl lvl) cs"

text \<open>Writing through a nil sink dereferences a nil pointer.\<close>

fun write_cores :: "Core list \<Rightarrow> Level \<Rightarrow> string \<Rightarrow> Write list \<Rightarrow> panic + Write list" where
  "write_cores [] lvl msg w = Inr w"
| "write_cores (c # cs) lvl msg w =
     (if out c = NilWS \<or> out c = NilRotateLogsWS then Inl NilPointerDereference
      else write_cores cs lvl msg (w @ [(out c, enc c, lvl, msg)]))"

text \<open>
  A log call at one of the four severities. A nil \<^verbatim>\<open>SugaredLogger\<close> panics, and so
  does a nil level pointer when an enabler reads it.
\<close>

definition log :: "Level \<Rightarrow> string \<Rightarrow> State \<Rightarrow> panic + State" where
  "log lvl msg s =
     (case SugaredLogger (logger s) of
        None \<Rightarrow> Inl NilPointerDereference
      | Some cs \<Rightarrow>
          (case Level (zapConfig (logger s)) of
             None \<Rightarrow> Inl NilPointerDereference
           | Some minl \<Rightarrow>
               (case write_cores (accepting cs minl lvl) lvl msg (written s) of
                  Inl e \<Rightarrow> Inl e
                | Inr w \<Rightarrow> Inr (s\<lparr>written := w\<rparr>))))"

definition Debug :: "string \<Rightarrow> State \<Rightarrow> panic + State" where
  "Debug msg s = log DebugLevel msg s"

definition Info :: "string \<Rightarrow> State \<Rightarrow> panic + State" where
  "Info msg s = log InfoLevel msg s"

definition Warn :: "string \<Rightarrow> State \<Rightarrow> panic + State" where
  "Warn msg s = log WarnLevel msg s"

definition Error :: "string \<Rightarrow> State \<Rightarrow> panic + State" where
  "Error msg s = log ErrorLevel msg s"

text \<open>The sinks a record of a level reaches, in order, for a logger that has its cores.\<close>

definition targets :: "State \<Rightarrow> Level \<Rightarrow> WriteSyncer list" where
  "targets s lvl =
     (case (SugaredLogger (logger s), Level (zapConfig (logger s))) of
        (Some cs, Some minl) \<Rightarrow> map out (accepting cs minl lvl)
      | _ \<Rightarrow> [])"

subsection \<open>Initialisation\<close>

text \<open>
  \<^verbatim>\<open>InitLogger(cfg ...*Options)\<close>, the variadic argument as a list of pointers. The
  mutex is not modelled: calls are taken one after the other.
\<close>

definition InitLogger :: "Env \<Rightarrow> nat option list \<Rightarrow> State \<Rightarrow> panic + State" where
  "InitLogger env cfg s =
     (if inited (logger s) then Info ''[initLogger] zaplog already initialized'' s
      else
        let s1 = (if length cfg > 0 then s\<lparr>logger := (logger s)\<lparr>Opts := hd cfg\<rparr>\<rparr> else s)
        in case loadCfg env s1 of
             Inl e \<Rightarrow> Inl e
           | Inr s2 \<Rightarrow>
               (case init env s2 of
                  Inl e \<Rightarrow> Inl e
                | Inr s3 \<Rightarrow>
                    (case Info ''[initLogger] zap plugin initializing completed'' s3 of
                       Inl e \<Rightarrow> Inl e
                     | Inr s4 \<Rightarrow> Inr (s4\<lparr>logger := (logger s4)\<lparr>inited := True\<rparr>\<rparr>))))"

definition GetLogger :: "State \<Rightarrow> Logger" where
  "GetLogger s = logger s"

subsection \<open>Example inputs\<close>

text \<open>
  Three environments: one in which nothing fails, one in which the rotation backend
  rejects every file-name pattern, and one in which the engine's \<^verbatim>\<open>Build\<close> always
  returns an error.
\<close>

definition example_env :: Env where
  "example_env =
     \<lparr>abs_dot = ''/srv/app'', Build_fails = (\<lambda>z. False), rotatelogs_fails = (\<lambda>r. False)\<rparr>"

definition failing_rotation_env :: Env where
  "failing_rotation_env =
     \<lparr>abs_dot = ''/srv/app'', Build_fails = (\<lambda>z. False), rotatelogs_fails = (\<lambda>r. True)\<rparr>"

definition failing_build_env :: Env where
  "failing_build_env =
     \<lparr>abs_dot = ''/srv/app'', Build_fails = (\<lambda>z. True), rotatelogs_fails = (\<lambda>r. False)\<rparr>"


text \<open>The options of \<^verbatim>\<open>TestZaplog\<close> in \<^verbatim>\<open>logger_test.go\<close>.\<close>

definition test_Options :: Options where
  "test_Options = zeroOptions
     \<lparr>LogLevel := ''info'', LogFileDir := ''../logs'', AppName := ''logtool'', MaxSize := 30,
      MaxBackups := 7, MaxAge := 7, CutType := 1, Development := True\<rparr>"

text \<open>
  Package states right after start-up in which a caller holds one \<^verbatim>\<open>Options\<close> struct
  at address 1: the test's options, an empty struct with only the development flag set,
  one asking for level warn, and one with a level string the switch does not know.
\<close>

definition test_state :: State where
  "test_state = package_init ((\<lambda>a. zeroOptions)(1 := test_Options))"

definition dev_state :: State where
  "dev_state = package_init ((\<lambda>a. zeroOptions)(1 := zeroOptions\<lparr>Development := True\<rparr>))"

definition warn_state :: State where
  "warn_state =
     package_init ((\<lambda>a. zeroOptions)(1 := zeroOptions\<lparr>LogLevel := ''warn'', Development := True\<rparr>))"

definition verbose_state :: State where
  "verbose_state = package_init ((\<lambda>a. zeroOptions)(1 := zeroOptions\<lparr>LogLevel := ''verbose''\<rparr>))"







text \<open>The first statement of \<^verbatim>\<open>InitLogger\<close> on a fresh logger: the pointer is stored.\<close>

definition with_Opts :: "nat \<Rightarrow> State \<Rightarrow> State" where
  "with_Opts a s = s\<lparr>logger := (logger s)\<lparr>Opts := Some a\<rparr>\<rparr>"

text \<open>Reading a result: a run that panicked leaves nothing to read.\<close>

definition minLevel :: "panic + State \<Rightarrow> Level option" where
  "minLevel r = (case r of Inl e \<Rightarrow> None | Inr s \<Rightarrow> Level (zapConfig (logger s)))"

definition written_of :: "panic + State \<Rightarrow> Write list" where
  "written_of r = (case r of Inl e \<Rightarrow> [] | Inr s \<Rightarrow> written s)"

definition and_then :: "panic + State \<Rightarrow> (State \<Rightarrow> panic + State) \<Rightarrow> panic + State" where
  "and_then r f = (case r of Inl e \<Rightarrow> Inl e | Inr s \<Rightarrow> f s)"

subsection \<open>Notions used in the statements\<close>

text \<open>A sink that can be written to: neither the nil interface nor a wrapped nil pointer.\<close>

definition healthy :: "WriteSyncer \<Rightarrow> bool" where
  "healthy w = (w \<noteq> NilWS \<and> w \<noteq> NilRotateLogsWS)"

text \<open>The lines a record leaves when the given cores write it.\<close>

definition log_lines :: "Core list \<Rightarrow> Level \<Rightarrow> string \<Rightarrow> Write list" where
  "log_lines cs lvl msg = map (\<lambda>c. (out c, enc c, lvl, msg)) cs"

text \<open>The two halves of the list that \<^verbatim>\<open>cores\<close> builds, by name.\<close>

definition file_cores :: "State \<Rightarrow> Core list" where
  "file_cores s =
     [\<lparr>enc = JSONEncoder (EncoderConfig (zapConfig (logger s))), out = errWS s, enab = errPriority\<rparr>,
      \<lparr>enc = JSONEncoder (EncoderConfig (zapConfig (logger s))), out = warnWS s, enab = warnPriority\<rparr>,
      \<lparr>enc = JSONEncoder (EncoderConfig (zapConfig (logger s))), out = infoWS s, enab = infoPriority\<rparr>,
      \<lparr>enc = JSONEncoder (EncoderConfig (zapConfig (logger s))), out = debugWS s, enab = debugPriority\<rparr>]"

definition console_cores :: "Core list" where
  "console_cores =
     [\<lparr>enc = ConsoleEncoder ((EncoderConfig NewDevelopmentConfig)\<lparr>EncodeTime := timeEncoder\<rparr>),
       out = Stderr, enab = errPriority\<rparr>,
      \<lparr>enc = ConsoleEncoder ((EncoderConfig NewDevelopmentConfig)\<lparr>EncodeTime := timeEncoder\<rparr>),
       out = Stdout, enab = warnPriority\<rparr>,
      \<lparr>enc = ConsoleEncoder ((EncoderConfig NewDevelopmentConfig)\<lparr>EncodeTime := timeEncoder\<rparr>),
       out = Stdout, enab = infoPriority\<rparr>,
      \<lparr>enc = ConsoleEncoder ((EncoderConfig NewDevelopmentConfig)\<lparr>EncodeTime := timeEncoder\<rparr>),
       out = Stdout, enab = debugPriority\<rparr>]"

text \<open>The arguments the time-based path of the sink factory hands to the backend.\<close>

definition rotation_args :: "Options \<Rightarrow> string \<Rightarrow> RotateLogs" where
  "rotation_args opts fName =
     \<lparr>pattern = LogFileDir opts @ sp @ AppName opts @ ''-'' @ fName @ ''.%Y_%m%d_%H'',
      WithLinkName = LogFileDir opts @ sp @ AppName opts @ ''-'' @ fName,
      WithMaxAge = MaxAge opts * 24 * Hour,
      WithRotationTime = Minute\<rparr>"

text \<open>
  The state in which a first call, given or holding the pointer \<open>a\<close>, logs its notice:
  configuration loaded, sinks built, cores composed.
\<close>

definition wired :: "Env \<Rightarrow> nat \<Rightarrow> State \<Rightarrow> State" where
  "wired env a s =
     (let opts = loadCfg_defaults env (heap s a);
          s1 = s\<lparr>logger := (logger s)\<lparr>Opts := Some a,
                                      zapConfig := loadCfg_zapConfig (heap s a)\<rparr>,
                 heap := (heap s)(a := opts),
                 errWS := setSyncers_f env opts (ErrorFileName opts),
                 warnWS := setSyncers_f env opts (WarnFileName opts),
                 infoWS := setSyncers_f env opts (InfoFileName opts),
                 debugWS := setSyncers_f env opts (DebugFileName opts)\<rparr>
      in s1\<lparr>logger := (logger s1)\<lparr>SugaredLogger :=
              Some (if Development opts then file_cores s1 @ console_cores
                    else file_cores s1)\<rparr>\<rparr>)"

section \<open>Properties\<close>

subsection \<open>Levels and level enablers\<close>

lemma level_values:
  "sint DebugLevel = - 1" "sint InfoLevel = 0" "sint WarnLevel = 1" "sint ErrorLevel = 2"
  by (simp_all add: DebugLevel_def InfoLevel_def WarnLevel_def ErrorLevel_def)

lemma levels_distinct:
  "DebugLevel \<noteq> InfoLevel" "DebugLevel \<noteq> WarnLevel" "DebugLevel \<noteq> ErrorLevel"
  "InfoLevel \<noteq> WarnLevel" "InfoLevel \<noteq> ErrorLevel" "WarnLevel \<noteq> ErrorLevel"
  "InfoLevel \<noteq> DebugLevel" "WarnLevel \<noteq> DebugLevel" "ErrorLevel \<noteq> DebugLevel"
  "WarnLevel \<noteq> InfoLevel" "ErrorLevel \<noteq> InfoLevel" "ErrorLevel \<noteq> WarnLevel"
  by (simp_all add: DebugLevel_def InfoLevel_def WarnLevel_def ErrorLevel_def)

text \<open>
  For a minimum among the four severities the subtraction cannot wrap, and an enabler is
  the conjunction of two thresholds.
\<close>

lemma enabled_threshold:
  assumes "minl = DebugLevel \<or> minl = InfoLevel \<or> minl = WarnLevel \<or> minl = ErrorLevel"
  shows "enabled p minl lvl \<longleftrightarrow> (severity p <=s lvl \<and> minl <=s severity p)"
  using assms
  by (cases p)
    (auto simp: DebugLevel_def InfoLevel_def WarnLevel_def ErrorLevel_def
      word_sle_eq word_sless_alt)

text \<open>It is the range of the minimum that makes this so: at \<open>- 128\<close> the difference wraps.\<close>

lemma enabled_wraps:
  "\<not> enabled infoPriority (- 128) InfoLevel" "(- 128 :: Level) <=s InfoLevel"
  by (simp_all add: InfoLevel_def word_sle_eq word_sless_alt)

subsection \<open>The configuration loader\<close>

lemma if_update:
  "\<And>c r v. (if c then r\<lparr>LogFileDir := v\<rparr> else r) =
     r\<lparr>LogFileDir := (if c then v else LogFileDir r)\<rparr>"
  "\<And>c r v. (if c then r\<lparr>AppName := v\<rparr> else r) =
     r\<lparr>AppName := (if c then v else AppName r)\<rparr>"
  "\<And>c r v. (if c then r\<lparr>ErrorFileName := v\<rparr> else r) =
     r\<lparr>ErrorFileName := (if c then v else ErrorFileName r)\<rparr>"
  "\<And>c r v. (if c then r\<lparr>WarnFileName := v\<rparr> else r) =
     r\<lparr>WarnFileName := (if c then v else WarnFileName r)\<rparr>"
  "\<And>c r v. (if c then r\<lparr>InfoFileName := v\<rparr> else r) =
     r\<lparr>InfoFileName := (if c then v else InfoFileName r)\<rparr>"
  "\<And>c r v. (if c then r\<lparr>DebugFileName := v\<rparr> else r) =
     r\<lparr>DebugFileName := (if c then v else DebugFileName r)\<rparr>"
  "\<And>c r v. (if c then r\<lparr>MaxSize := v\<rparr> else r) =
     r\<lparr>MaxSize := (if c then v else MaxSize r)\<rparr>"
  "\<And>c r v. (if c then r\<lparr>MaxBackups := v\<rparr> else r) =
     r\<lparr>MaxBackups := (if c then v else MaxBackups r)\<rparr>"
  "\<And>c r v. (if c then r\<lparr>MaxAge := v\<rparr> else r) =
     r\<lparr>MaxAge := (if c then v else MaxAge r)\<rparr>"
  by simp_all

text \<open>The nine conditional assignments, folded into one update of the struct.\<close>

lemma loadCfg_defaults_eq:
  "loadCfg_defaults env x =
     x\<lparr>LogFileDir := (if LogFileDir x = [] then abs_dot env @ ''/logs/'' else LogFileDir x),
       AppName := (if AppName x = [] then ''app'' else AppName x),
       ErrorFileName := (if ErrorFileName x = [] then ''error.log'' else ErrorFileName x),
       WarnFileName := (if WarnFileName x = [] then ''warn.log'' else WarnFileName x),
       InfoFileName := (if InfoFileName x = [] then ''info.log'' else InfoFileName x),
       DebugFileName := (if DebugFileName x = [] then ''debug.log'' else DebugFileName x),
       MaxSize := (if MaxSize x = 0 then 100 else MaxSize x),
       MaxBackups := (if MaxBackups x = 0 then 30 else MaxBackups x),
       MaxAge := (if MaxAge x = 0 then 30 else MaxAge x)\<rparr>"
  unfolding loadCfg_defaults_def
  by (simp add: if_update Let_def sp_def split del: if_split cong: if_cong)

lemma defaults_kept:
  "LogLevel (loadCfg_defaults env x) = LogLevel x"
  "CutType (loadCfg_defaults env x) = CutType x"
  "Development (loadCfg_defaults env x) = Development x"
  "Config (loadCfg_defaults env x) = Config x"
  by (simp_all add: loadCfg_defaults_eq)

lemma defaults_filled:
  "LogFileDir (loadCfg_defaults env x) =
     (if LogFileDir x = [] then abs_dot env @ ''/logs/'' else LogFileDir x)"
  "AppName (loadCfg_defaults env x) = (if AppName x = [] then ''app'' else AppName x)"
  "ErrorFileName (loadCfg_defaults env x) =
     (if ErrorFileName x = [] then ''error.log'' else ErrorFileName x)"
  "WarnFileName (loadCfg_defaults env x) =
     (if WarnFileName x = [] then ''warn.log'' else WarnFileName x)"
  "InfoFileName (loadCfg_defaults env x) =
     (if InfoFileName x = [] then ''info.log'' else InfoFileName x)"
  "DebugFileName (loadCfg_defaults env x) =
     (if DebugFileName x = [] then ''debug.log'' else DebugFileName x)"
  "MaxSize (loadCfg_defaults env x) = (if MaxSize x = 0 then 100 else MaxSize x)"
  "MaxBackups (loadCfg_defaults env x) = (if MaxBackups x = 0 then 30 else MaxBackups x)"
  "MaxAge (loadCfg_defaults env x) = (if MaxAge x = 0 then 30 else MaxAge x)"
  by (simp_all add: loadCfg_defaults_eq)

lemma zapConfig_level:
  "Level (loadCfg_zapConfig x) =
     (if LogLevel x = ''debug'' then Some DebugLevel
      else if LogLevel x = ''info'' then Some InfoLevel
      else if LogLevel x = ''warn'' then Some WarnLevel
      else if LogLevel x = ''error'' then Some ErrorLevel
      else if Development x then Some DebugLevel else Some InfoLevel)"
  by (simp add: loadCfg_zapConfig_def Let_def SetLevel_def NewDevelopmentConfig_def
      NewProductionConfig_def)

lemma zapConfig_level_cases:
  "\<exists>m. Level (loadCfg_zapConfig x) = Some m \<and>
       (m = DebugLevel \<or> m = InfoLevel \<or> m = WarnLevel \<or> m = ErrorLevel)"
  by (simp add: zapConfig_level)

lemma loadCfg_Some:
  "Opts (logger s) = Some a \<Longrightarrow>
   loadCfg env s =
     Inr (s\<lparr>logger := (logger s)\<lparr>zapConfig := loadCfg_zapConfig (heap s a)\<rparr>,
            heap := (heap s)(a := loadCfg_defaults env (heap s a))\<rparr>)"
  by (simp add: loadCfg_def)

lemma example_pointers:
  "Opts (logger (with_Opts a s)) = Some a" "heap (with_Opts a s) = heap s"
  "inited (logger (with_Opts a s)) = inited (logger s)"
  by (simp_all add: with_Opts_def)

lemma example_heaps:
  "heap test_state (Suc 0) = test_Options"
  "heap dev_state (Suc 0) = zeroOptions\<lparr>Development := True\<rparr>"
  "heap warn_state (Suc 0) = zeroOptions\<lparr>LogLevel := ''warn'', Development := True\<rparr>"
  "heap verbose_state (Suc 0) = zeroOptions\<lparr>LogLevel := ''verbose''\<rparr>"
  "heap (package_init h) 0 = zeroOptions"
  "heap test_state 0 = zeroOptions" "heap dev_state 0 = zeroOptions"
  "heap warn_state 0 = zeroOptions" "heap verbose_state 0 = zeroOptions"
  by (simp_all add: test_state_def dev_state_def warn_state_def verbose_state_def
      package_init_def)

text \<open>
  C2, as the code has it. With \<^verbatim>\<open>LogLevel\<close> empty no branch of the switch runs, and
  the level stays the one of the base profile: info in production mode, debug in
  development mode.
\<close>

theorem loadCfg_unset_level:
  assumes "Opts (logger s) = Some a" and "LogLevel (heap s a) = []"
  shows "\<exists>s'. loadCfg env s = Inr s' \<and>
           Level (zapConfig (logger s')) =
             Some (if Development (heap s a) then DebugLevel else InfoLevel)"
  using assms by (simp add: loadCfg_Some zapConfig_level)

theorem loadCfg_unset_level_witness:
  "Opts (logger (with_Opts 1 dev_state)) = Some 1 \<and>
   LogLevel (heap (with_Opts 1 dev_state) 1) = [] \<and>
   (\<exists>s'. loadCfg example_env (with_Opts 1 dev_state) = Inr s' \<and>
         Level (zapConfig (logger s')) = Some DebugLevel)"
proof -
  have p: "Opts (logger (with_Opts 1 dev_state)) = Some 1"
    by (simp add: example_pointers)
  have l: "LogLevel (heap (with_Opts 1 dev_state) 1) = []"
    by (simp add: example_pointers example_heaps zeroOptions_def)
  have d: "Development (heap (with_Opts 1 dev_state) 1)"
    by (simp add: example_pointers example_heaps)
  show ?thesis
    using p l d loadCfg_unset_level [OF p l, of example_env] by simp
qed

text \<open>
  C2, as the specification states it, fails: in development mode an empty
  \<^verbatim>\<open>LogLevel\<close> leaves the minimum level at debug, not info.
\<close>

theorem loadCfg_unset_level_counterexample:
  "LogLevel (heap (with_Opts 1 dev_state) 1) = [] \<and>
   minLevel (loadCfg example_env (with_Opts 1 dev_state)) = Some DebugLevel \<and>
   DebugLevel \<noteq> InfoLevel"
  by (simp add: minLevel_def loadCfg_Some example_pointers example_heaps zapConfig_level
      levels_distinct zeroOptions_def)

text \<open>
  C4. After loading, whatever the options, each of the four enablers accepts a level
  exactly when the level reaches the enabler's severity and that severity reaches the
  configured minimum. The gates are thresholds, not buckets: unless the minimum is
  error, an error record passes both the error gate and the warn gate.
\<close>

theorem priority_threshold_gates:
  assumes "Opts (logger s) = Some a"
  shows "\<exists>s' minl. loadCfg env s = Inr s' \<and> Level (zapConfig (logger s')) = Some minl \<and>
           (\<forall>p lvl. enabled p minl lvl \<longleftrightarrow> (severity p <=s lvl \<and> minl <=s severity p)) \<and>
           (minl \<noteq> ErrorLevel \<longrightarrow>
              enabled errPriority minl ErrorLevel \<and> enabled warnPriority minl ErrorLevel)"
proof -
  obtain m where m: "Level (loadCfg_zapConfig (heap s a)) = Some m"
    and r: "m = DebugLevel \<or> m = InfoLevel \<or> m = WarnLevel \<or> m = ErrorLevel"
    using zapConfig_level_cases by blast
  have t: "\<forall>p lvl. enabled p m lvl \<longleftrightarrow> (severity p <=s lvl \<and> m <=s severity p)"
    using enabled_threshold [OF r] by blast
  have g: "m \<noteq> ErrorLevel \<longrightarrow> enabled errPriority m ErrorLevel \<and> enabled warnPriority m ErrorLevel"
    using r
    by (auto simp: DebugLevel_def InfoLevel_def WarnLevel_def ErrorLevel_def word_sle_eq
        word_sless_alt)
  have "Level (zapConfig (logger (s\<lparr>logger := (logger s)\<lparr>zapConfig := loadCfg_zapConfig (heap s a)\<rparr>,
            heap := (heap s)(a := loadCfg_defaults env (heap s a))\<rparr>))) = Some m"
    using m by simp
  then show ?thesis
    using loadCfg_Some [OF assms, of env] t g by blast
qed

theorem priority_threshold_gates_witness:
  "Opts (logger (with_Opts 1 test_state)) = Some 1 \<and>
   (\<exists>s'. loadCfg example_env (with_Opts 1 test_state) = Inr s' \<and>
         Level (zapConfig (logger s')) = Some InfoLevel \<and>
         enabled errPriority InfoLevel ErrorLevel \<and> enabled warnPriority InfoLevel ErrorLevel \<and>
         enabled infoPriority InfoLevel ErrorLevel \<and> \<not> enabled debugPriority InfoLevel ErrorLevel)"
proof -
  have p: "Opts (logger (with_Opts 1 test_state)) = Some 1"
    by (simp add: example_pointers)
  have l: "Level (loadCfg_zapConfig (heap (with_Opts 1 test_state) 1)) = Some InfoLevel"
    by (simp add: zapConfig_level example_pointers example_heaps test_Options_def)
  from priority_threshold_gates [OF p, of example_env] obtain s' minl where
    s': "loadCfg example_env (with_Opts 1 test_state) = Inr s'"
    and m: "Level (zapConfig (logger s')) = Some minl"
    and t: "\<forall>p lvl. enabled p minl lvl \<longleftrightarrow> (severity p <=s lvl \<and> minl <=s severity p)"
    by blast
  have "minl = InfoLevel"
    using s' m l unfolding loadCfg_Some [OF p] by auto
  then show ?thesis
    using p s' m t by (simp add: level_values word_sle_eq)
qed

text \<open>
  C8. Loading fills each empty field among the directory, the application name, the four
  file names, the size, the backup count and the age with its default, the directory
  being \<^verbatim>\<open>logs\<close> under the working directory; a field that was set keeps its value,
  the other fields of the struct and every other struct are untouched.
\<close>

theorem loadCfg_fills_defaults:
  assumes "Opts (logger s) = Some a"
  shows "\<exists>s'. loadCfg env s = Inr s' \<and>
     LogFileDir (heap s' a) =
       (if LogFileDir (heap s a) = [] then abs_dot env @ ''/logs/'' else LogFileDir (heap s a)) \<and>
     AppName (heap s' a) = (if AppName (heap s a) = [] then ''app'' else AppName (heap s a)) \<and>
     ErrorFileName (heap s' a) =
       (if ErrorFileName (heap s a) = [] then ''error.log'' else ErrorFileName (heap s a)) \<and>
     WarnFileName (heap s' a) =
       (if WarnFileName (heap s a) = [] then ''warn.log'' else WarnFileName (heap s a)) \<and>
     InfoFileName (heap s' a) =
       (if InfoFileName (heap s a) = [] then ''info.log'' else InfoFileName (heap s a)) \<and>
     DebugFileName (heap s' a) =
       (if DebugFileName (heap s a) = [] then ''debug.log'' else DebugFileName (heap s a)) \<and>
     MaxSize (heap s' a) = (if MaxSize (heap s a) = 0 then 100 else MaxSize (heap s a)) \<and>
     MaxBackups (heap s' a) = (if MaxBackups (heap s a) = 0 then 30 else MaxBackups (heap s a)) \<and>
     MaxAge (heap s' a) = (if MaxAge (heap s a) = 0 then 30 else MaxAge (heap s a)) \<and>
     LogLevel (heap s' a) = LogLevel (heap s a) \<and> CutType (heap s' a) = CutType (heap s a) \<and>
     Development (heap s' a) = Development (heap s a) \<and> Config (heap s' a) = Config (heap s a) \<and>
     (\<forall>q. q \<noteq> a \<longrightarrow> heap s' q = heap s q)"
  using assms by (simp add: loadCfg_Some defaults_filled defaults_kept)

theorem loadCfg_fills_defaults_witness:
  "Opts (logger (with_Opts 1 test_state)) = Some 1 \<and>
   (\<exists>s'. loadCfg example_env (with_Opts 1 test_state) = Inr s' \<and>
      LogFileDir (heap s' 1) = ''../logs'' \<and> AppName (heap s' 1) = ''logtool'' \<and>
      ErrorFileName (heap s' 1) = ''error.log'' \<and> WarnFileName (heap s' 1) = ''warn.log'' \<and>
      InfoFileName (heap s' 1) = ''info.log'' \<and> DebugFileName (heap s' 1) = ''debug.log'' \<and>
      MaxSize (heap s' 1) = 30 \<and> MaxBackups (heap s' 1) = 7 \<and> MaxAge (heap s' 1) = 7 \<and>
      heap s' 0 = zeroOptions)"
proof -
  have p: "Opts (logger (with_Opts 1 test_state)) = Some 1"
    by (simp add: example_pointers)
  have h: "heap (with_Opts 1 test_state) 1 = test_Options"
    "heap (with_Opts 1 test_state) 0 = zeroOptions"
    by (simp_all add: example_pointers example_heaps)
  show ?thesis
    using p loadCfg_fills_defaults [OF p, of example_env]
    unfolding h
    by (auto simp: test_Options_def zeroOptions_def example_pointers example_heaps)
qed

text \<open>
  C9. Loading never fails on an \<^verbatim>\<open>Options\<close> struct: for every struct the logger
  points to it returns a state, and a level string outside the four names changes
  nothing, the level of the base profile staying in place.
\<close>

theorem loadCfg_total:
  assumes "Opts (logger s) = Some a"
  shows "\<exists>s'. loadCfg env s = Inr s' \<and>
     (LogLevel (heap s a) \<notin> {''debug'', ''info'', ''warn'', ''error''} \<longrightarrow>
        Level (zapConfig (logger s')) =
          Level (if Development (heap s a) then NewDevelopmentConfig else NewProductionConfig))"
  using assms
  by (simp add: loadCfg_Some zapConfig_level NewDevelopmentConfig_def NewProductionConfig_def)

theorem loadCfg_total_witness:
  "Opts (logger (with_Opts 1 verbose_state)) = Some 1 \<and>
   LogLevel (heap (with_Opts 1 verbose_state) 1) = ''verbose'' \<and>
   (\<exists>s'. loadCfg example_env (with_Opts 1 verbose_state) = Inr s' \<and>
      Level (zapConfig (logger s')) = Some InfoLevel)"
proof -
  have p: "Opts (logger (with_Opts 1 verbose_state)) = Some 1"
    by (simp add: example_pointers)
  have h: "heap (with_Opts 1 verbose_state) 1 = zeroOptions\<lparr>LogLevel := ''verbose''\<rparr>"
    by (simp add: example_pointers example_heaps)
  show ?thesis
    using p loadCfg_total [OF p, of example_env]
    unfolding h by (auto simp: zeroOptions_def NewProductionConfig_def)
qed

subsection \<open>The sink factory\<close>

lemma setSyncers_f_size_based:
  "CutType opts = 0 \<Longrightarrow> \<exists>l. setSyncers_f env opts fName = LumberjackWS l"
  by (simp add: setSyncers_f_def)

lemma setSyncers_f_time_based:
  "CutType opts \<noteq> 0 \<Longrightarrow>
   setSyncers_f env opts fName = NilRotateLogsWS \<or>
   (\<exists>r. setSyncers_f env opts fName = RotateLogsWS r \<and> WithRotationTime r = Minute \<and>
        WithMaxAge r = MaxAge opts * 24 * Hour)"
  by (simp add: setSyncers_f_def Let_def)

lemma setSyncers_f_rejected:
  "CutType opts \<noteq> 0 \<Longrightarrow> \<forall>r. rotatelogs_fails env r \<Longrightarrow>
   setSyncers_f env opts fName = NilRotateLogsWS"
  by (simp add: setSyncers_f_def Let_def)

subsection \<open>Logging and initialisation, in closed form\<close>

lemma write_cores_eq:
  "write_cores cs lvl msg w =
     (if list_all (\<lambda>c. healthy (out c)) cs then Inr (w @ log_lines cs lvl msg)
      else Inl NilPointerDereference)"
  by (induction cs arbitrary: w) (auto simp: healthy_def log_lines_def)

lemma log_eq:
  "SugaredLogger (logger s) = Some cs \<Longrightarrow> Level (zapConfig (logger s)) = Some minl \<Longrightarrow>
   log lvl msg s =
     (if list_all (\<lambda>c. healthy (out c)) (accepting cs minl lvl)
      then Inr (s\<lparr>written := written s @ log_lines (accepting cs minl lvl) lvl msg\<rparr>)
      else Inl NilPointerDereference)"
  by (simp add: log_def write_cores_eq)

lemma log_Inr:
  assumes "log lvl msg s = Inr s'"
  shows "\<exists>cs minl. SugaredLogger (logger s) = Some cs \<and> Level (zapConfig (logger s)) = Some minl \<and>
           list_all (\<lambda>c. healthy (out c)) (accepting cs minl lvl) \<and>
           s' = s\<lparr>written := written s @ log_lines (accepting cs minl lvl) lvl msg\<rparr>"
  using assms
  by (auto simp: log_def write_cores_eq split: option.splits sum.splits if_splits)

lemma cores_cong:
  "Opts (logger s') = Opts (logger s) \<Longrightarrow> heap s' = heap s \<Longrightarrow>
   zapConfig (logger s') = zapConfig (logger s) \<Longrightarrow> errWS s' = errWS s \<Longrightarrow>
   warnWS s' = warnWS s \<Longrightarrow> infoWS s' = infoWS s \<Longrightarrow> debugWS s' = debugWS s \<Longrightarrow>
   cores s' = cores s"
  by (simp add: cores_def cong: option.case_cong)

lemma cores_Some:
  "Opts (logger s) = Some a \<Longrightarrow>
   cores s = Inr (if Development (heap s a) then file_cores s @ console_cores else file_cores s)"
  by (simp add: cores_def file_cores_def console_cores_def Let_def debugConsoleWS_def
      errorConsoleWS_def)

lemma Build_error_loaded:
  "Build_error env (loadCfg_zapConfig x) = Build_fails env (loadCfg_zapConfig x)"
proof -
  have "Encoding (loadCfg_zapConfig x) = ''json'' \<or> Encoding (loadCfg_zapConfig x) = ''console''"
    by (simp add: loadCfg_zapConfig_def Let_def SetLevel_def NewDevelopmentConfig_def
        NewProductionConfig_def)
  moreover have "Level (loadCfg_zapConfig x) \<noteq> None"
    using zapConfig_level_cases [of x] by auto
  ultimately show ?thesis
    by (auto simp: Build_error_def)
qed

lemma Build_error_zero: "Build_error env zeroConfig"
  by (simp add: Build_error_def zeroConfig_def)

lemma init_Some:
  "Opts (logger s) = Some a \<Longrightarrow>
   init env s =
     (if Build_error env (zapConfig (logger s)) then Inl BuildError
      else let s1 = s\<lparr>errWS := setSyncers_f env (heap s a) (ErrorFileName (heap s a)),
                      warnWS := setSyncers_f env (heap s a) (WarnFileName (heap s a)),
                      infoWS := setSyncers_f env (heap s a) (InfoFileName (heap s a)),
                      debugWS := setSyncers_f env (heap s a) (DebugFileName (heap s a))\<rparr>
           in Inr (s1\<lparr>logger := (logger s)\<lparr>SugaredLogger :=
                    Some (if Development (heap s a) then file_cores s1 @ console_cores
                          else file_cores s1)\<rparr>\<rparr>))"
  by (simp add: init_def setSyncers_def cores_Some Let_def)

lemma init_nil: "Opts (logger s) = None \<Longrightarrow> init env s = Inl NilPointerDereference"
  by (simp add: init_def setSyncers_def)

lemma setSyncers_f_healthy:
  "CutType opts = 0 \<or> (\<forall>r. \<not> rotatelogs_fails env r) \<Longrightarrow> healthy (setSyncers_f env opts fName)"
  by (auto simp: setSyncers_f_def healthy_def Let_def)

lemma setSyncers_f_not_console:
  "setSyncers_f env opts fName \<noteq> Stdout" "setSyncers_f env opts fName \<noteq> Stderr"
  by (simp_all add: setSyncers_f_def Let_def)

lemma list_all_accepting:
  "list_all P cs \<Longrightarrow> list_all P (accepting cs minl lvl)"
  by (simp add: accepting_def list_all_iff)

lemma init_Inr:
  assumes "init env s = Inr s'"
  shows "\<exists>a. Opts (logger s) = Some a \<and> \<not> Build_error env (zapConfig (logger s)) \<and>
           SugaredLogger (logger s') =
             Some (if Development (heap s a) then file_cores s' @ console_cores else file_cores s') \<and>
           Opts (logger s') = Opts (logger s) \<and> zapConfig (logger s') = zapConfig (logger s) \<and>
           inited (logger s') = inited (logger s) \<and> heap s' = heap s \<and> written s' = written s \<and>
           errWS s' = setSyncers_f env (heap s a) (ErrorFileName (heap s a)) \<and>
           warnWS s' = setSyncers_f env (heap s a) (WarnFileName (heap s a)) \<and>
           infoWS s' = setSyncers_f env (heap s a) (InfoFileName (heap s a)) \<and>
           debugWS s' = setSyncers_f env (heap s a) (DebugFileName (heap s a))"
proof (cases "Opts (logger s)")
  case None
  then show ?thesis using assms by (simp add: init_nil)
next
  case (Some a)
  then show ?thesis
    using assms by (auto simp: init_Some Let_def file_cores_def split: if_splits)
qed

text \<open>What a first call leaves behind.\<close>

lemma InitLogger_fresh:
  assumes "\<not> inited (logger s)" and "InitLogger env cfg s = Inr s'"
  shows "\<exists>a. (if cfg = [] then Opts (logger s) else hd cfg) = Some a \<and>
           Opts (logger s') = Some a \<and>
           heap s' = (heap s)(a := loadCfg_defaults env (heap s a)) \<and>
           zapConfig (logger s') = loadCfg_zapConfig (heap s a) \<and>
           inited (logger s') \<and>
           SugaredLogger (logger s') =
             Some (if Development (heap s a) then file_cores s' @ console_cores else file_cores s') \<and>
           \<not> Build_fails env (loadCfg_zapConfig (heap s a)) \<and>
           errWS s' = setSyncers_f env (heap s' a) (ErrorFileName (heap s' a)) \<and>
           warnWS s' = setSyncers_f env (heap s' a) (WarnFileName (heap s' a)) \<and>
           infoWS s' = setSyncers_f env (heap s' a) (InfoFileName (heap s' a)) \<and>
           debugWS s' = setSyncers_f env (heap s' a) (DebugFileName (heap s' a))"
proof -
  define s1 where "s1 = (if length cfg > 0 then s\<lparr>logger := (logger s)\<lparr>Opts := hd cfg\<rparr>\<rparr> else s)"
  from assms obtain s2 s3 s4 where
    l: "loadCfg env s1 = Inr s2" and i: "init env s2 = Inr s3" and
    n: "Info ''[initLogger] zap plugin initializing completed'' s3 = Inr s4" and
    e: "s' = s4\<lparr>logger := (logger s4)\<lparr>inited := True\<rparr>\<rparr>"
    by (auto simp: InitLogger_def s1_def Let_def split: sum.splits)
  from l obtain a where a: "Opts (logger s1) = Some a"
    and s2: "s2 = s1\<lparr>logger := (logger s1)\<lparr>zapConfig := loadCfg_zapConfig (heap s1 a)\<rparr>,
                 heap := (heap s1)(a := loadCfg_defaults env (heap s1 a))\<rparr>"
    by (auto simp: loadCfg_def split: option.splits)
  have h1: "heap s1 = heap s" by (simp add: s1_def)
  have p: "(if cfg = [] then Opts (logger s) else hd cfg) = Some a"
    using a by (auto simp: s1_def split: if_splits)
  from n obtain w where s4: "s4 = s3\<lparr>written := w\<rparr>"
    unfolding Info_def by (blast dest: log_Inr)
  from init_Inr [OF i] obtain a' where
    i3: "Opts (logger s2) = Some a'" "\<not> Build_error env (zapConfig (logger s2))"
        "SugaredLogger (logger s3) =
           Some (if Development (heap s2 a') then file_cores s3 @ console_cores else file_cores s3)"
        "Opts (logger s3) = Opts (logger s2)" "zapConfig (logger s3) = zapConfig (logger s2)"
        "heap s3 = heap s2"
        "errWS s3 = setSyncers_f env (heap s2 a') (ErrorFileName (heap s2 a'))"
        "warnWS s3 = setSyncers_f env (heap s2 a') (WarnFileName (heap s2 a'))"
        "infoWS s3 = setSyncers_f env (heap s2 a') (InfoFileName (heap s2 a'))"
        "debugWS s3 = setSyncers_f env (heap s2 a') (DebugFileName (heap s2 a'))"
    by blast
  have aa: "a' = a" using i3(1) a by (simp add: s2)
  have f: "file_cores (s3\<lparr>written := w, logger := (logger s3)\<lparr>inited := True\<rparr>\<rparr>) = file_cores s3"
    by (simp add: file_cores_def)
  show ?thesis
    using p a i3 by (simp add: e s4 s2 h1 aa f defaults_kept Build_error_loaded)
qed

text \<open>A first call returns when the engine builds and no sink is nil.\<close>

lemma InitLogger_succeeds:
  assumes "\<not> inited (logger s)"
    and "(if cfg = [] then Opts (logger s) else hd cfg) = Some a"
    and "\<not> Build_fails env (loadCfg_zapConfig (heap s a))"
    and "CutType (heap s a) = 0 \<or> (\<forall>r. \<not> rotatelogs_fails env r)"
  shows "\<exists>s'. InitLogger env cfg s = Inr s'"
proof -
  define s1 where "s1 = (if length cfg > 0 then s\<lparr>logger := (logger s)\<lparr>Opts := hd cfg\<rparr>\<rparr> else s)"
  define s2 where "s2 = s1\<lparr>logger := (logger s1)\<lparr>zapConfig := loadCfg_zapConfig (heap s1 a)\<rparr>,
                 heap := (heap s1)(a := loadCfg_defaults env (heap s1 a))\<rparr>"
  have a1: "Opts (logger s1) = Some a" and h1: "heap s1 = heap s"
    using assms(2) by (auto simp: s1_def split: if_splits)
  have l: "loadCfg env s1 = Inr s2"
    by (simp add: s2_def loadCfg_Some [OF a1])
  have a2: "Opts (logger s2) = Some a" and z2: "zapConfig (logger s2) = loadCfg_zapConfig (heap s a)"
    and h2: "heap s2 a = loadCfg_defaults env (heap s a)"
    using a1 by (simp_all add: s2_def h1)
  have c2: "CutType (heap s2 a) = 0 \<or> (\<forall>r. \<not> rotatelogs_fails env r)"
    using assms(4) by (simp add: h2 defaults_kept)
  obtain s3 where i: "init env s2 = Inr s3"
    using assms(3) by (simp add: init_Some [OF a2] z2 Let_def Build_error_loaded)
  from init_Inr [OF i] a2 have
    i3: "SugaredLogger (logger s3) =
           Some (if Development (heap s2 a) then file_cores s3 @ console_cores else file_cores s3)"
        "zapConfig (logger s3) = zapConfig (logger s2)"
        "errWS s3 = setSyncers_f env (heap s2 a) (ErrorFileName (heap s2 a))"
        "warnWS s3 = setSyncers_f env (heap s2 a) (WarnFileName (heap s2 a))"
        "infoWS s3 = setSyncers_f env (heap s2 a) (InfoFileName (heap s2 a))"
        "debugWS s3 = setSyncers_f env (heap s2 a) (DebugFileName (heap s2 a))"
    by auto
  obtain m where m: "Level (zapConfig (logger s3)) = Some m"
    using zapConfig_level_cases [of "heap s a"] by (auto simp: i3(2) z2)
  have hf: "list_all (\<lambda>c. healthy (out c)) (file_cores s3)"
    using setSyncers_f_healthy [OF c2] by (simp add: file_cores_def i3)
  have hc: "list_all (\<lambda>c. healthy (out c)) console_cores"
    by (simp add: console_cores_def healthy_def)
  have "list_all (\<lambda>c. healthy (out c))
          (if Development (heap s2 a) then file_cores s3 @ console_cores else file_cores s3)"
    using hf hc by simp
  then obtain s4 where n: "Info ''[initLogger] zap plugin initializing completed'' s3 = Inr s4"
    unfolding Info_def by (simp add: log_eq [OF i3(1) m] list_all_accepting)
  show ?thesis
    using assms(1) l i n unfolding InitLogger_def s1_def [symmetric] Let_def by simp
qed

subsection \<open>Failures during initialisation\<close>

lemma example_fresh:
  "\<not> inited (logger test_state)" "\<not> inited (logger dev_state)"
  "\<not> inited (logger warn_state)" "\<not> inited (logger verbose_state)"
  "\<not> inited (logger (package_init h))" "Opts (logger (package_init h)) = Some 0"
  by (simp_all add: test_state_def dev_state_def warn_state_def verbose_state_def
      package_init_def)

lemma example_envs:
  "\<not> Build_fails example_env z" "\<not> rotatelogs_fails example_env r"
  "\<not> Build_fails failing_rotation_env z" "rotatelogs_fails failing_rotation_env r"
  "Build_fails failing_build_env z"
  by (simp_all add: example_env_def failing_rotation_env_def failing_build_env_def)

subsection \<open>What a call that returned leaves behind\<close>

lemma InitLogger_can_log:
  assumes "InitLogger env cfg s = Inr s1"
  shows "inited (logger s1) \<and>
         (\<exists>cs m. SugaredLogger (logger s1) = Some cs \<and> Level (zapConfig (logger s1)) = Some m \<and>
                 list_all (\<lambda>c. healthy (out c)) (accepting cs m InfoLevel))"
proof (cases "inited (logger s)")
  case True
  then have "log InfoLevel ''[initLogger] zaplog already initialized'' s = Inr s1"
    using assms by (simp add: InitLogger_def Info_def)
  from log_Inr [OF this] True show ?thesis by auto
next
  case False
  then obtain s3 s4 where
    n: "log InfoLevel ''[initLogger] zap plugin initializing completed'' s3 = Inr s4" and
    e: "s1 = s4\<lparr>logger := (logger s4)\<lparr>inited := True\<rparr>\<rparr>"
    using assms by (auto simp: InitLogger_def Info_def Let_def split: sum.splits)
  from log_Inr [OF n] show ?thesis by (auto simp: e)
qed

subsection \<open>The caller's options\<close>

text \<open>
  C10. A first call that is given a pointer stores that very pointer in the logger and
  fills the defaults into the struct it points to: after the call the caller's struct has
  its empty fields overwritten, and no other struct has changed.
\<close>

theorem InitLogger_fills_callers_record:
  assumes "\<not> inited (logger s)" and "InitLogger env (Some p # cfg) s = Inr s'"
  shows "Opts (logger s') = Some p \<and>
     LogFileDir (heap s' p) =
       (if LogFileDir (heap s p) = [] then abs_dot env @ ''/logs/'' else LogFileDir (heap s p)) \<and>
     AppName (heap s' p) = (if AppName (heap s p) = [] then ''app'' else AppName (heap s p)) \<and>
     ErrorFileName (heap s' p) =
       (if ErrorFileName (heap s p) = [] then ''error.log'' else ErrorFileName (heap s p)) \<and>
     WarnFileName (heap s' p) =
       (if WarnFileName (heap s p) = [] then ''warn.log'' else WarnFileName (heap s p)) \<and>
     InfoFileName (heap s' p) =
       (if InfoFileName (heap s p) = [] then ''info.log'' else InfoFileName (heap s p)) \<and>
     DebugFileName (heap s' p) =
       (if DebugFileName (heap s p) = [] then ''debug.log'' else DebugFileName (heap s p)) \<and>
     MaxSize (heap s' p) = (if MaxSize (heap s p) = 0 then 100 else MaxSize (heap s p)) \<and>
     MaxBackups (heap s' p) = (if MaxBackups (heap s p) = 0 then 30 else MaxBackups (heap s p)) \<and>
     MaxAge (heap s' p) = (if MaxAge (heap s p) = 0 then 30 else MaxAge (heap s p)) \<and>
     (\<forall>q. q \<noteq> p \<longrightarrow> heap s' q = heap s q)"
proof -
  from InitLogger_fresh [OF assms] have
    o: "Opts (logger s') = Some p" and
    h: "heap s' = (heap s)(p := loadCfg_defaults env (heap s p))"
    by auto
  show ?thesis
    unfolding h using o by (simp add: defaults_filled)
qed

theorem InitLogger_fills_callers_record_witness:
  "\<not> inited (logger dev_state) \<and>
   (\<exists>s'. InitLogger example_env [Some 1] dev_state = Inr s' \<and>
      Opts (logger s') = Some 1 \<and> LogFileDir (heap s' 1) = ''/srv/app/logs/'' \<and>
      AppName (heap s' 1) = ''app'' \<and> ErrorFileName (heap s' 1) = ''error.log'' \<and>
      WarnFileName (heap s' 1) = ''warn.log'' \<and> InfoFileName (heap s' 1) = ''info.log'' \<and>
      DebugFileName (heap s' 1) = ''debug.log'' \<and> MaxSize (heap s' 1) = 100 \<and>
      MaxBackups (heap s' 1) = 30 \<and> MaxAge (heap s' 1) = 30 \<and> heap s' 0 = heap dev_state 0)"
proof -
  have f: "\<not> inited (logger dev_state)"
    by (simp add: example_fresh)
  have "\<exists>s'. InitLogger example_env [Some 1] dev_state = Inr s'"
    by (rule InitLogger_succeeds [where a = 1]) (simp_all add: example_fresh example_envs)
  then obtain s' where r: "InitLogger example_env [Some 1] dev_state = Inr s'" ..
  have h: "heap dev_state 1 = zeroOptions\<lparr>Development := True\<rparr>"
    by (simp add: example_heaps)
  show ?thesis
    using f r InitLogger_fills_callers_record [OF f r]
    unfolding h by (auto simp: example_env_def zeroOptions_def)
qed

subsection \<open>The sinks a record reaches\<close>

lemma map_fst_log_lines: "map fst (log_lines cs lvl msg) = map out cs"
  by (simp add: log_lines_def)

lemma log_targets:
  assumes "log lvl msg s = Inr s2"
  shows "map fst (written s2) = map fst (written s) @ targets s lvl"
  using log_Inr [OF assms] by (auto simp: targets_def map_fst_log_lines)

lemma count_list_accepting_0:
  "\<forall>c\<in>set cs. out c \<noteq> x \<Longrightarrow> count_list (map out (accepting cs m lvl)) x = 0"
  by (auto simp: accepting_def count_list_0_iff)

lemma count_replicate: "count_list (replicate n x) y = (if x = y then n else 0)"
  by (induction n) auto

lemma console_targets_error:
  assumes "m = DebugLevel \<or> m = InfoLevel \<or> m = WarnLevel \<or> m = ErrorLevel"
  shows "map out (accepting console_cores m ErrorLevel) =
     Stderr # replicate (if m = ErrorLevel then 0 else if m = WarnLevel then 1
                         else if m = InfoLevel then 2 else 3) Stdout"
  using assms
  by (auto simp: accepting_def console_cores_def DebugLevel_def InfoLevel_def WarnLevel_def
      ErrorLevel_def word_sle_eq word_sless_alt numeral_3_eq_3 numeral_2_eq_2)

lemma not_enabled_debug_at_warn: "\<not> enabled p WarnLevel DebugLevel"
  by (cases p)
    (simp_all add: DebugLevel_def InfoLevel_def WarnLevel_def ErrorLevel_def word_sle_eq
      word_sless_alt)

lemma zapConfig_defaults:
  "loadCfg_zapConfig (loadCfg_defaults env x) = loadCfg_zapConfig x"
  by (simp add: loadCfg_zapConfig_def defaults_kept cong: if_cong)

text \<open>The sinks a record reaches once a first call has returned.\<close>

lemma fresh_targets:
  assumes "\<not> inited (logger s)" and "InitLogger env cfg s = Inr s1"
  shows "\<exists>a m. Opts (logger s1) = Some a \<and> Level (zapConfig (logger s1)) = Some m \<and>
        Level (loadCfg_zapConfig (heap s1 a)) = Some m \<and>
        (m = DebugLevel \<or> m = InfoLevel \<or> m = WarnLevel \<or> m = ErrorLevel) \<and>
        SugaredLogger (logger s1) =
          Some (if Development (heap s1 a) then file_cores s1 @ console_cores else file_cores s1) \<and>
        (\<forall>c\<in>set (file_cores s1). out c \<noteq> Stdout \<and> out c \<noteq> Stderr) \<and>
        (CutType (heap s1 a) = 0 \<or> (\<forall>r. \<not> rotatelogs_fails env r) \<longrightarrow>
           list_all (\<lambda>c. healthy (out c)) (file_cores s1))"
proof -
  from InitLogger_fresh [OF assms] obtain a where
    o: "Opts (logger s1) = Some a" and
    h: "heap s1 = (heap s)(a := loadCfg_defaults env (heap s a))" and
    z: "zapConfig (logger s1) = loadCfg_zapConfig (heap s a)" and
    c: "SugaredLogger (logger s1) =
          Some (if Development (heap s a) then file_cores s1 @ console_cores else file_cores s1)" and
    w: "errWS s1 = setSyncers_f env (heap s1 a) (ErrorFileName (heap s1 a))"
       "warnWS s1 = setSyncers_f env (heap s1 a) (WarnFileName (heap s1 a))"
       "infoWS s1 = setSyncers_f env (heap s1 a) (InfoFileName (heap s1 a))"
       "debugWS s1 = setSyncers_f env (heap s1 a) (DebugFileName (heap s1 a))"
    by blast
  have ha: "heap s1 a = loadCfg_defaults env (heap s a)"
    by (simp add: h)
  obtain m where m: "Level (loadCfg_zapConfig (heap s a)) = Some m"
    and r: "m = DebugLevel \<or> m = InfoLevel \<or> m = WarnLevel \<or> m = ErrorLevel"
    using zapConfig_level_cases by blast
  have m1: "Level (loadCfg_zapConfig (heap s1 a)) = Some m"
    using m by (simp add: ha zapConfig_defaults)
  have n: "\<forall>c\<in>set (file_cores s1). out c \<noteq> Stdout \<and> out c \<noteq> Stderr"
    by (simp add: file_cores_def w setSyncers_f_not_console)
  have k: "CutType (heap s1 a) = 0 \<or> (\<forall>r. \<not> rotatelogs_fails env r) \<longrightarrow>
           list_all (\<lambda>c. healthy (out c)) (file_cores s1)"
    by (auto simp: file_cores_def w intro: setSyncers_f_healthy)
  have d: "Development (heap s1 a) = Development (heap s a)"
    by (simp add: ha defaults_kept)
  show ?thesis
    using o m m1 r c n k by (simp add: z d)
qed

lemma log_healthy:
  assumes "SugaredLogger (logger s) = Some cs" and "Level (zapConfig (logger s)) = Some m"
    and "list_all (\<lambda>c. healthy (out c)) cs"
  shows "\<exists>s2. log lvl msg s = Inr s2"
  using assms(3) by (simp add: log_eq [OF assms(1,2)] list_all_accepting)

lemma error_targets:
  assumes "\<not> inited (logger s)" and "InitLogger env cfg s = Inr s1"
    and "Opts (logger s1) = Some a" and "Development (heap s1 a)"
  shows "\<exists>minl. Level (zapConfig (logger s1)) = Some minl \<and>
     Level (loadCfg_zapConfig (heap s1 a)) = Some minl \<and>
     count_list (targets s1 ErrorLevel) Stderr = 1 \<and>
     count_list (targets s1 ErrorLevel) Stdout =
       (if minl = ErrorLevel then 0 else if minl = WarnLevel then 1
        else if minl = InfoLevel then 2 else 3) \<and>
     (\<forall>msg s2. Error msg s1 = Inr s2 \<longrightarrow>
        map fst (written s2) = map fst (written s1) @ targets s1 ErrorLevel) \<and>
     (CutType (heap s1 a) = 0 \<or> (\<forall>r. \<not> rotatelogs_fails env r) \<longrightarrow>
        (\<forall>msg. \<exists>s2. Error msg s1 = Inr s2))"
proof -
  from fresh_targets [OF assms(1,2)] assms(3,4) obtain m where
    m: "Level (zapConfig (logger s1)) = Some m"
    and m1: "Level (loadCfg_zapConfig (heap s1 a)) = Some m"
    and r: "m = DebugLevel \<or> m = InfoLevel \<or> m = WarnLevel \<or> m = ErrorLevel"
    and c: "SugaredLogger (logger s1) = Some (file_cores s1 @ console_cores)"
    and n: "\<forall>c\<in>set (file_cores s1). out c \<noteq> Stdout \<and> out c \<noteq> Stderr"
    and k: "CutType (heap s1 a) = 0 \<or> (\<forall>r. \<not> rotatelogs_fails env r) \<longrightarrow>
              list_all (\<lambda>c. healthy (out c)) (file_cores s1)"
    by auto
  have t: "targets s1 ErrorLevel =
      map out (accepting (file_cores s1) m ErrorLevel) @
      Stderr # replicate (if m = ErrorLevel then 0 else if m = WarnLevel then 1
                          else if m = InfoLevel then 2 else 3) Stdout"
    using console_targets_error [OF r]
    by (simp add: targets_def c m accepting_def)
  have f1: "count_list (map out (accepting (file_cores s1) m ErrorLevel)) Stderr = 0"
    and f2: "count_list (map out (accepting (file_cores s1) m ErrorLevel)) Stdout = 0"
    using n by (simp_all add: count_list_accepting_0)
  have e: "count_list (targets s1 ErrorLevel) Stderr = 1"
    unfolding t using f1 by (simp add: count_replicate)
  have d: "count_list (targets s1 ErrorLevel) Stdout =
       (if m = ErrorLevel then 0 else if m = WarnLevel then 1 else if m = InfoLevel then 2 else 3)"
    unfolding t using f2 by (simp add: count_replicate)
  have w: "\<forall>msg s2. Error msg s1 = Inr s2 \<longrightarrow>
        map fst (written s2) = map fst (written s1) @ targets s1 ErrorLevel"
    unfolding Error_def by (blast dest: log_targets)
  have hc: "list_all (\<lambda>c. healthy (out c)) console_cores"
    by (simp add: console_cores_def healthy_def)
  have g: "CutType (heap s1 a) = 0 \<or> (\<forall>r. \<not> rotatelogs_fails env r) \<longrightarrow>
        (\<forall>msg. \<exists>s2. Error msg s1 = Inr s2)"
    unfolding Error_def using k hc log_healthy [OF c m] by simp
  show ?thesis
    using m m1 e d w g by blast
qed

lemma dev_state_run:
  "\<exists>s1. InitLogger example_env [Some 1] dev_state = Inr s1 \<and> Opts (logger s1) = Some 1 \<and>
        heap s1 1 = loadCfg_defaults example_env (zeroOptions\<lparr>Development := True\<rparr>)"
proof -
  have f: "\<not> inited (logger dev_state)"
    by (simp add: example_fresh)
  have "\<exists>s1. InitLogger example_env [Some 1] dev_state = Inr s1"
    by (rule InitLogger_succeeds [where a = 1]) (simp_all add: example_fresh example_envs)
  then obtain s1 where r: "InitLogger example_env [Some 1] dev_state = Inr s1" ..
  from InitLogger_fresh [OF f r] have "Opts (logger s1) = Some 1"
    and "heap s1 = (heap dev_state)(1 := loadCfg_defaults example_env (heap dev_state 1))"
    by auto
  then show ?thesis using r by (auto simp: example_heaps)
qed

text \<open>
  C7. With the level string \<^verbatim>\<open>warn\<close> the minimum level is warn, and the logger that a
  first call builds has four cores, or eight in development mode, none of which accepts
  a record of debug level: a debug call writes nothing and leaves the state as it was.
\<close>

theorem warn_level_drops_debug:
  assumes "\<not> inited (logger s)" and "InitLogger env cfg s = Inr s1"
    and "Opts (logger s1) = Some a" and "LogLevel (heap s1 a) = ''warn''"
  shows "Level (zapConfig (logger s1)) = Some WarnLevel \<and>
     (\<exists>cs. SugaredLogger (logger s1) = Some cs \<and>
        length cs = (if Development (heap s1 a) then 8 else 4) \<and>
        (\<forall>c\<in>set cs. \<not> enabled (enab c) WarnLevel DebugLevel)) \<and>
     targets s1 DebugLevel = [] \<and>
     (\<forall>msg. Debug msg s1 = Inr s1)"
proof -
  from fresh_targets [OF assms(1,2)] assms(3) obtain m where
    m: "Level (zapConfig (logger s1)) = Some m"
    and m1: "Level (loadCfg_zapConfig (heap s1 a)) = Some m"
    and c: "SugaredLogger (logger s1) =
          Some (if Development (heap s1 a) then file_cores s1 @ console_cores else file_cores s1)"
    by auto
  have w: "m = WarnLevel"
    using m1 assms(4) by (simp add: zapConfig_level)
  have a: "\<And>cs. accepting cs WarnLevel DebugLevel = []"
    by (simp add: accepting_def not_enabled_debug_at_warn)
  have n: "length (if Development (heap s1 a) then file_cores s1 @ console_cores
                   else file_cores s1) = (if Development (heap s1 a) then 8 else 4)"
    by (simp add: file_cores_def console_cores_def)
  have t: "targets s1 DebugLevel = []"
    by (simp add: targets_def c m w a)
  have g: "\<forall>msg. Debug msg s1 = Inr s1"
    using m w by (simp add: Debug_def log_eq [OF c] a log_lines_def)
  show ?thesis
    using m w c n t g by (simp add: not_enabled_debug_at_warn)
qed

theorem warn_level_drops_debug_witness:
  "\<not> inited (logger warn_state) \<and>
   (\<exists>s1. InitLogger example_env [Some 1] warn_state = Inr s1 \<and> Opts (logger s1) = Some 1 \<and>
      LogLevel (heap s1 1) = ''warn'' \<and> Development (heap s1 1) \<and>
      Level (zapConfig (logger s1)) = Some WarnLevel \<and>
      (\<exists>cs. SugaredLogger (logger s1) = Some cs \<and> length cs = 8) \<and>
      targets s1 DebugLevel = [] \<and> Debug ''cache miss'' s1 = Inr s1)"
proof -
  have f: "\<not> inited (logger warn_state)"
    by (simp add: example_fresh)
  have "\<exists>s1. InitLogger example_env [Some 1] warn_state = Inr s1"
    by (rule InitLogger_succeeds [where a = 1]) (simp_all add: example_fresh example_envs)
  then obtain s1 where r: "InitLogger example_env [Some 1] warn_state = Inr s1" ..
  from InitLogger_fresh [OF f r] have o: "Opts (logger s1) = Some 1"
    and h: "heap s1 1 = loadCfg_defaults example_env
              (zeroOptions\<lparr>LogLevel := ''warn'', Development := True\<rparr>)"
    by (auto simp: example_heaps)
  have l: "LogLevel (heap s1 1) = ''warn''" and d: "Development (heap s1 1)"
    unfolding h by (simp_all add: defaults_kept)
  from warn_level_drops_debug [OF f r o l] d show ?thesis
    using f r o l by auto
qed

subsection \<open>The file names of the time-based sink\<close>











lemma setSyncers_f_eq:
  "setSyncers_f env opts fName =
     (if CutType opts = 0
      then LumberjackWS
             \<lparr>ljFilename = LogFileDir opts @ sp @ AppName opts @ ''-'' @ fName,
              ljMaxSize = MaxSize opts, ljMaxBackups = MaxBackups opts, ljMaxAge = MaxAge opts,
              ljCompress = True, ljLocalTime = True\<rparr>
      else if rotatelogs_fails env (rotation_args opts fName) then NilRotateLogsWS
      else RotateLogsWS (rotation_args opts fName))"
  by (simp add: setSyncers_f_def rotation_args_def Let_def)

lemma healthy_setSyncers_f:
  "healthy (setSyncers_f env opts fName) \<longleftrightarrow>
     CutType opts = 0 \<or> \<not> rotatelogs_fails env (rotation_args opts fName)"
  by (simp add: setSyncers_f_eq healthy_def)









subsection \<open>A first call, in closed form\<close>

lemma wired_fields:
  "Opts (logger (wired env a s)) = Some a"
  "zapConfig (logger (wired env a s)) = loadCfg_zapConfig (heap s a)"
  "inited (logger (wired env a s)) = inited (logger s)"
  "heap (wired env a s) = (heap s)(a := loadCfg_defaults env (heap s a))"
  "written (wired env a s) = written s"
  "errWS (wired env a s) =
     setSyncers_f env (loadCfg_defaults env (heap s a)) (ErrorFileName (loadCfg_defaults env (heap s a)))"
  "warnWS (wired env a s) =
     setSyncers_f env (loadCfg_defaults env (heap s a)) (WarnFileName (loadCfg_defaults env (heap s a)))"
  "infoWS (wired env a s) =
     setSyncers_f env (loadCfg_defaults env (heap s a)) (InfoFileName (loadCfg_defaults env (heap s a)))"
  "debugWS (wired env a s) =
     setSyncers_f env (loadCfg_defaults env (heap s a)) (DebugFileName (loadCfg_defaults env (heap s a)))"
  "SugaredLogger (logger (wired env a s)) =
     Some (if Development (heap s a) then file_cores (wired env a s) @ console_cores
           else file_cores (wired env a s))"
  by (simp_all add: wired_def Let_def file_cores_def defaults_kept)

lemma init_after_loadCfg:
  assumes "Opts (logger s1) = Some a"
  shows "init env (s1\<lparr>logger := (logger s1)\<lparr>zapConfig := loadCfg_zapConfig (heap s1 a)\<rparr>,
                   heap := (heap s1)(a := loadCfg_defaults env (heap s1 a))\<rparr>) =
     (if Build_fails env (loadCfg_zapConfig (heap s1 a)) then Inl BuildError
      else Inr (wired env a s1))"
proof -
  have e: "(logger s1)\<lparr>Opts := Some a\<rparr> = logger s1"
    using assms by (metis Logger.surjective Logger.update_convs(2) Logger.select_convs(2))
  show ?thesis
    using assms
    by (simp add: init_Some Build_error_loaded Let_def wired_def file_cores_def defaults_kept e)
qed

lemma InitLogger_fresh_eq:
  assumes "\<not> inited (logger s)" and "(if cfg = [] then Opts (logger s) else hd cfg) = Some a"
  shows "InitLogger env cfg s =
     (if Build_fails env (loadCfg_zapConfig (heap s a)) then Inl BuildError
      else case Info ''[initLogger] zap plugin initializing completed'' (wired env a s) of
             Inl e \<Rightarrow> Inl e
           | Inr s4 \<Rightarrow> Inr (s4\<lparr>logger := (logger s4)\<lparr>inited := True\<rparr>\<rparr>))"
proof -
  define s1 where "s1 = (if length cfg > 0 then s\<lparr>logger := (logger s)\<lparr>Opts := hd cfg\<rparr>\<rparr> else s)"
  have a1: "Opts (logger s1) = Some a" and h1: "heap s1 = heap s"
    using assms(2) by (auto simp: s1_def split: if_splits)
  have w: "wired env a s1 = wired env a s"
    by (auto simp: s1_def wired_def Let_def file_cores_def)
  have "InitLogger env cfg s =
      (case init env (s1\<lparr>logger := (logger s1)\<lparr>zapConfig := loadCfg_zapConfig (heap s1 a)\<rparr>,
                   heap := (heap s1)(a := loadCfg_defaults env (heap s1 a))\<rparr>) of
         Inl e \<Rightarrow> Inl e
       | Inr s3 \<Rightarrow>
           (case Info ''[initLogger] zap plugin initializing completed'' s3 of
              Inl e \<Rightarrow> Inl e
            | Inr s4 \<Rightarrow> Inr (s4\<lparr>logger := (logger s4)\<lparr>inited := True\<rparr>\<rparr>)))"
    using assms(1) unfolding InitLogger_def s1_def [symmetric] Let_def
    by (simp add: loadCfg_Some [OF a1])
  then show ?thesis
    unfolding init_after_loadCfg [OF a1] by (simp add: w h1)
qed

lemma healthy_console: "list_all (\<lambda>c. healthy (out c)) console_cores"
  by (simp add: console_cores_def healthy_def)

lemma list_all_accepting_append:
  "list_all P (accepting (xs @ ys) m l) \<longleftrightarrow>
     list_all P (accepting xs m l) \<and> list_all P (accepting ys m l)"
  by (simp add: accepting_def)

lemma healthy_accepting_info:
  assumes "m = DebugLevel \<or> m = InfoLevel \<or> m = WarnLevel \<or> m = ErrorLevel"
  shows "list_all (\<lambda>c. healthy (out c)) (accepting (file_cores s) m InfoLevel) \<longleftrightarrow>
     (m = DebugLevel \<or> m = InfoLevel \<longrightarrow> healthy (infoWS s)) \<and>
     (m = DebugLevel \<longrightarrow> healthy (debugWS s))"
  using assms
  by (auto simp: accepting_def file_cores_def DebugLevel_def InfoLevel_def WarnLevel_def
      ErrorLevel_def word_sle_eq word_sless_alt)

lemma healthy_accepting_error:
  assumes "m = DebugLevel \<or> m = InfoLevel \<or> m = WarnLevel \<or> m = ErrorLevel"
  shows "list_all (\<lambda>c. healthy (out c)) (accepting (file_cores s) m ErrorLevel) \<longleftrightarrow>
     healthy (errWS s) \<and> (m \<noteq> ErrorLevel \<longrightarrow> healthy (warnWS s)) \<and>
     (m = DebugLevel \<or> m = InfoLevel \<longrightarrow> healthy (infoWS s)) \<and>
     (m = DebugLevel \<longrightarrow> healthy (debugWS s))"
  using assms
  by (auto simp: accepting_def file_cores_def DebugLevel_def InfoLevel_def WarnLevel_def
      ErrorLevel_def word_sle_eq word_sless_alt)

lemma healthy_accepting_cores:
  "list_all (\<lambda>c. healthy (out c))
     (accepting (if d then file_cores s @ console_cores else file_cores s) m l) \<longleftrightarrow>
   list_all (\<lambda>c. healthy (out c)) (accepting (file_cores s) m l)"
  using list_all_accepting [OF healthy_console, of m l]
  by (simp add: list_all_accepting_append)

text \<open>A first call on a fresh logger, in closed form.\<close>

lemma InitLogger_fresh_result:
  assumes "\<not> inited (logger s)" and "(if cfg = [] then Opts (logger s) else hd cfg) = Some a"
    and "Level (loadCfg_zapConfig (heap s a)) = Some minl"
  shows "InitLogger env cfg s =
     (if Build_fails env (loadCfg_zapConfig (heap s a)) then Inl BuildError
      else if (minl = DebugLevel \<or> minl = InfoLevel) \<and> \<not> healthy (infoWS (wired env a s)) \<or>
              minl = DebugLevel \<and> \<not> healthy (debugWS (wired env a s))
      then Inl NilPointerDereference
      else Inr ((wired env a s)
             \<lparr>written := written s @
                log_lines
                  (accepting (if Development (heap s a)
                              then file_cores (wired env a s) @ console_cores
                              else file_cores (wired env a s)) minl InfoLevel)
                  InfoLevel ''[initLogger] zap plugin initializing completed'',
              logger := (logger (wired env a s))\<lparr>inited := True\<rparr>\<rparr>))"
proof -
  have r: "minl = DebugLevel \<or> minl = InfoLevel \<or> minl = WarnLevel \<or> minl = ErrorLevel"
    using zapConfig_level_cases [of "heap s a"] assms(3) by auto
  have m: "Level (zapConfig (logger (wired env a s))) = Some minl"
    using assms(3) by (simp add: wired_fields)
  show ?thesis
    unfolding InitLogger_fresh_eq [OF assms(1,2)] Info_def
      log_eq [OF wired_fields(10) m] healthy_accepting_cores healthy_accepting_info [OF r]
    by (auto simp: wired_fields)
qed



lemma example_levels:
  "Level (loadCfg_zapConfig test_Options) = Some InfoLevel"
  "Level (loadCfg_zapConfig (test_Options\<lparr>InfoFileName := x\<rparr>)) = Some InfoLevel"
  "Level (loadCfg_zapConfig (test_Options\<lparr>ErrorFileName := x\<rparr>)) = Some InfoLevel"
  "Level (loadCfg_zapConfig (zeroOptions\<lparr>Development := True\<rparr>)) = Some DebugLevel"
  by (simp_all add: zapConfig_level test_Options_def zeroOptions_def)





subsection \<open>A second call to the initialiser\<close>

text \<open>
  C5. Whatever the first call was given, once it has returned a second call, with any
  arguments and in any environment, returns too. It leaves the logger struct with its
  resolved configuration and its flag, the store of options and the sinks as they were,
  and it logs its notice: the lines it adds are those of the notice, at info level, one
  for each core of the logger that accepts info at the configured minimum.
\<close>

theorem InitLogger_twice:
  assumes "InitLogger env cfg s = Inr s1"
  shows "\<exists>s2 cs minl. SugaredLogger (logger s1) = Some cs \<and>
           Level (zapConfig (logger s1)) = Some minl \<and>
           InitLogger env' cfg' s1 = Inr s2 \<and> inited (logger s2) \<and>
           logger s2 = logger s1 \<and> heap s2 = heap s1 \<and>
           errWS s2 = errWS s1 \<and> warnWS s2 = warnWS s1 \<and> infoWS s2 = infoWS s1 \<and>
           debugWS s2 = debugWS s1 \<and>
           written s2 =
             written s1 @
             log_lines (accepting cs minl InfoLevel) InfoLevel
               ''[initLogger] zaplog already initialized''"
proof -
  from InitLogger_can_log [OF assms] obtain cs m where
    i: "inited (logger s1)" and c: "SugaredLogger (logger s1) = Some cs"
    and m: "Level (zapConfig (logger s1)) = Some m"
    and h: "list_all (\<lambda>c. healthy (out c)) (accepting cs m InfoLevel)"
    by blast
  have "InitLogger env' cfg' s1 =
          Inr (s1\<lparr>written := written s1 @
                 log_lines (accepting cs m InfoLevel) InfoLevel
                   ''[initLogger] zaplog already initialized''\<rparr>)"
    using i h by (simp add: InitLogger_def Info_def log_eq [OF c m])
  then show ?thesis using i c m by auto
qed

lemma accepting_info_at_info:
  "accepting (file_cores s @ console_cores) InfoLevel InfoLevel =
     [\<lparr>enc = JSONEncoder (EncoderConfig (zapConfig (logger s))), out = infoWS s,
        enab = infoPriority\<rparr>,
      \<lparr>enc = ConsoleEncoder ((EncoderConfig NewDevelopmentConfig)\<lparr>EncodeTime := timeEncoder\<rparr>),
        out = Stdout, enab = infoPriority\<rparr>]"
  by (simp add: accepting_def file_cores_def console_cores_def DebugLevel_def InfoLevel_def
      WarnLevel_def ErrorLevel_def word_sle_eq word_sless_alt)

theorem InitLogger_twice_witness:
  "\<exists>s1. InitLogger example_env [Some 1] test_state = Inr s1 \<and>
     (\<exists>s2. InitLogger failing_build_env [Some 0] s1 = Inr s2 \<and> inited (logger s2) \<and>
           logger s2 = logger s1 \<and> heap s2 = heap s1 \<and> Opts (logger s2) = Some 1 \<and>
           written s2 =
             written s1 @
             [(infoWS s1, JSONEncoder (EncoderConfig (zapConfig (logger s1))), InfoLevel,
               ''[initLogger] zaplog already initialized''),
              (Stdout,
               ConsoleEncoder ((EncoderConfig NewDevelopmentConfig)\<lparr>EncodeTime := timeEncoder\<rparr>),
               InfoLevel, ''[initLogger] zaplog already initialized'')])"
proof -
  have f: "\<not> inited (logger test_state)"
    by (simp add: example_fresh)
  have "\<exists>s1. InitLogger example_env [Some 1] test_state = Inr s1"
    by (rule InitLogger_succeeds [where a = 1]) (simp_all add: example_fresh example_envs)
  then obtain s1 where r: "InitLogger example_env [Some 1] test_state = Inr s1" ..
  from fresh_targets [OF f r] obtain a m where
    o: "Opts (logger s1) = Some a" and m: "Level (zapConfig (logger s1)) = Some m"
    and m1: "Level (loadCfg_zapConfig (heap s1 a)) = Some m"
    and c: "SugaredLogger (logger s1) =
          Some (if Development (heap s1 a) then file_cores s1 @ console_cores else file_cores s1)"
    by blast
  from InitLogger_fresh [OF f r] o have a: "a = 1"
    and h: "heap s1 1 = loadCfg_defaults example_env test_Options"
    by (auto simp: example_heaps)
  have d: "Development (heap s1 1)"
    unfolding h by (simp add: defaults_kept test_Options_def)
  have mi: "m = InfoLevel"
    using m1 unfolding a h by (simp add: zapConfig_defaults example_levels)
  have c': "SugaredLogger (logger s1) = Some (file_cores s1 @ console_cores)"
    using c d by (simp add: a)
  from InitLogger_twice [OF r, of failing_build_env "[Some 0]"] obtain s2 where
    "InitLogger failing_build_env [Some 0] s1 = Inr s2" "inited (logger s2)"
    "logger s2 = logger s1" "heap s2 = heap s1"
    "written s2 = written s1 @
       log_lines (accepting (file_cores s1 @ console_cores) InfoLevel InfoLevel) InfoLevel
         ''[initLogger] zaplog already initialized''"
    using c' m mi by auto
  then show ?thesis
    using r o a by (auto simp: accepting_info_at_info log_lines_def)
qed

subsection \<open>Error records in development mode\<close>

lemma count_log_lines_other_sink:
  "\<forall>c\<in>set cs. out c \<noteq> w \<Longrightarrow> count_list (log_lines cs lvl msg) (w, e, l, m) = 0"
  by (auto simp: count_list_0_iff log_lines_def)

lemma count_log_lines_other_level:
  "lvl \<noteq> l \<Longrightarrow> count_list (log_lines cs lvl msg) (w, e, l, m) = 0"
  by (auto simp: count_list_0_iff log_lines_def)

lemma accepting_append:
  "accepting (xs @ ys) m l = accepting xs m l @ accepting ys m l"
  by (simp add: accepting_def)

lemma log_lines_append:
  "log_lines (xs @ ys) l m = log_lines xs l m @ log_lines ys l m"
  by (simp add: log_lines_def)

lemma accepting_subset: "set (accepting cs m l) \<subseteq> set cs"
  by (auto simp: accepting_def)

lemma console_error_lines_at_debug:
  "count_list (log_lines (accepting console_cores DebugLevel ErrorLevel) ErrorLevel msg)
     (Stdout, ConsoleEncoder ((EncoderConfig NewDevelopmentConfig)\<lparr>EncodeTime := timeEncoder\<rparr>),
      ErrorLevel, msg) = 3"
  by (simp add: accepting_def console_cores_def log_lines_def DebugLevel_def InfoLevel_def
      WarnLevel_def ErrorLevel_def word_sle_eq word_sless_alt)

lemma error_call:
  assumes "\<not> inited (logger s)" and "InitLogger env cfg s = Inr s1"
    and "Opts (logger s1) = Some a" and "Development (heap s1 a)"
  shows "\<exists>minl. Level (zapConfig (logger s1)) = Some minl \<and>
     Level (loadCfg_zapConfig (heap s1 a)) = Some minl \<and>
     SugaredLogger (logger s1) = Some (file_cores s1 @ console_cores) \<and>
     targets s1 ErrorLevel = map out (accepting (file_cores s1 @ console_cores) minl ErrorLevel) \<and>
     count_list (targets s1 ErrorLevel) Stderr = 1 \<and>
     count_list (targets s1 ErrorLevel) Stdout =
       (if minl = ErrorLevel then 0 else if minl = WarnLevel then 1
        else if minl = InfoLevel then 2 else 3) \<and>
     (\<forall>msg. Error msg s1 =
        (if healthy (errWS s1) \<and> (minl \<noteq> ErrorLevel \<longrightarrow> healthy (warnWS s1)) \<and>
            (minl = DebugLevel \<or> minl = InfoLevel \<longrightarrow> healthy (infoWS s1)) \<and>
            (minl = DebugLevel \<longrightarrow> healthy (debugWS s1))
         then Inr (s1\<lparr>written := written s1 @
                     log_lines (accepting (file_cores s1 @ console_cores) minl ErrorLevel)
                       ErrorLevel msg\<rparr>)
         else Inl NilPointerDereference)) \<and>
     (healthy (errWS s1) \<longleftrightarrow> CutType (heap s1 a) = 0 \<or>
        \<not> rotatelogs_fails env (rotation_args (heap s1 a) (ErrorFileName (heap s1 a)))) \<and>
     (healthy (warnWS s1) \<longleftrightarrow> CutType (heap s1 a) = 0 \<or>
        \<not> rotatelogs_fails env (rotation_args (heap s1 a) (WarnFileName (heap s1 a)))) \<and>
     (healthy (infoWS s1) \<longleftrightarrow> CutType (heap s1 a) = 0 \<or>
        \<not> rotatelogs_fails env (rotation_args (heap s1 a) (InfoFileName (heap s1 a)))) \<and>
     (healthy (debugWS s1) \<longleftrightarrow> CutType (heap s1 a) = 0 \<or>
        \<not> rotatelogs_fails env (rotation_args (heap s1 a) (DebugFileName (heap s1 a))))"
proof -
  from fresh_targets [OF assms(1,2)] assms(3,4) obtain m where
    m: "Level (zapConfig (logger s1)) = Some m"
    and m1: "Level (loadCfg_zapConfig (heap s1 a)) = Some m"
    and r: "m = DebugLevel \<or> m = InfoLevel \<or> m = WarnLevel \<or> m = ErrorLevel"
    and c: "SugaredLogger (logger s1) = Some (file_cores s1 @ console_cores)"
    by auto
  from error_targets [OF assms] m have
    e: "count_list (targets s1 ErrorLevel) Stderr = 1" and
    d: "count_list (targets s1 ErrorLevel) Stdout =
       (if m = ErrorLevel then 0 else if m = WarnLevel then 1 else if m = InfoLevel then 2 else 3)"
    by auto
  have t: "targets s1 ErrorLevel = map out (accepting (file_cores s1 @ console_cores) m ErrorLevel)"
    by (simp add: targets_def c m)
  have k: "list_all (\<lambda>c. healthy (out c)) (accepting (file_cores s1 @ console_cores) m ErrorLevel) \<longleftrightarrow>
      healthy (errWS s1) \<and> (m \<noteq> ErrorLevel \<longrightarrow> healthy (warnWS s1)) \<and>
      (m = DebugLevel \<or> m = InfoLevel \<longrightarrow> healthy (infoWS s1)) \<and>
      (m = DebugLevel \<longrightarrow> healthy (debugWS s1))"
    using healthy_accepting_cores [of True s1 m ErrorLevel] healthy_accepting_error [OF r, of s1]
    by simp
  have g: "\<forall>msg. Error msg s1 =
        (if healthy (errWS s1) \<and> (m \<noteq> ErrorLevel \<longrightarrow> healthy (warnWS s1)) \<and>
            (m = DebugLevel \<or> m = InfoLevel \<longrightarrow> healthy (infoWS s1)) \<and>
            (m = DebugLevel \<longrightarrow> healthy (debugWS s1))
         then Inr (s1\<lparr>written := written s1 @
                     log_lines (accepting (file_cores s1 @ console_cores) m ErrorLevel)
                       ErrorLevel msg\<rparr>)
         else Inl NilPointerDereference)"
    unfolding Error_def log_eq [OF c m] k by simp
  from InitLogger_fresh [OF assms(1,2)] assms(3) have
    w: "errWS s1 = setSyncers_f env (heap s1 a) (ErrorFileName (heap s1 a))"
       "warnWS s1 = setSyncers_f env (heap s1 a) (WarnFileName (heap s1 a))"
       "infoWS s1 = setSyncers_f env (heap s1 a) (InfoFileName (heap s1 a))"
       "debugWS s1 = setSyncers_f env (heap s1 a) (DebugFileName (heap s1 a))"
    by auto
  have hw: "healthy (errWS s1) \<longleftrightarrow> CutType (heap s1 a) = 0 \<or>
        \<not> rotatelogs_fails env (rotation_args (heap s1 a) (ErrorFileName (heap s1 a)))"
    "healthy (warnWS s1) \<longleftrightarrow> CutType (heap s1 a) = 0 \<or>
        \<not> rotatelogs_fails env (rotation_args (heap s1 a) (WarnFileName (heap s1 a)))"
    "healthy (infoWS s1) \<longleftrightarrow> CutType (heap s1 a) = 0 \<or>
        \<not> rotatelogs_fails env (rotation_args (heap s1 a) (InfoFileName (heap s1 a)))"
    "healthy (debugWS s1) \<longleftrightarrow> CutType (heap s1 a) = 0 \<or>
        \<not> rotatelogs_fails env (rotation_args (heap s1 a) (DebugFileName (heap s1 a)))"
    unfolding w by (simp_all add: healthy_setSyncers_f)
  from m m1 c t e d g hw show ?thesis by blast
qed

text \<open>
  C1, as the code has it. In development mode a record of error severity reaches the
  stderr console sink once. The stdout console cores are gated by the warn, info and
  debug enablers, which are thresholds: each of them whose severity is at or above the
  configured minimum accepts the error record too, so the record stays off stdout only
  when the minimum is error. An error call writes one line, with its level and message,
  to the sink of every accepting core, file cores first; it panics instead when one of
  the accepting file sinks is nil, which is so exactly when rotation is time-based and
  the backend rejected the arguments of that sink.
\<close>

theorem error_record_console_sinks:
  assumes "\<not> inited (logger s)" and "InitLogger env cfg s = Inr s1"
    and "Opts (logger s1) = Some a" and "Development (heap s1 a)"
  shows "\<exists>minl. Level (zapConfig (logger s1)) = Some minl \<and>
     SugaredLogger (logger s1) = Some (file_cores s1 @ console_cores) \<and>
     targets s1 ErrorLevel = map out (accepting (file_cores s1 @ console_cores) minl ErrorLevel) \<and>
     count_list (targets s1 ErrorLevel) Stderr = 1 \<and>
     count_list (targets s1 ErrorLevel) Stdout =
       (if minl = ErrorLevel then 0 else if minl = WarnLevel then 1
        else if minl = InfoLevel then 2 else 3) \<and>
     (\<forall>msg. Error msg s1 =
        (if healthy (errWS s1) \<and> (minl \<noteq> ErrorLevel \<longrightarrow> healthy (warnWS s1)) \<and>
            (minl = DebugLevel \<or> minl = InfoLevel \<longrightarrow> healthy (infoWS s1)) \<and>
            (minl = DebugLevel \<longrightarrow> healthy (debugWS s1))
         then Inr (s1\<lparr>written := written s1 @
                     log_lines (accepting (file_cores s1 @ console_cores) minl ErrorLevel)
                       ErrorLevel msg\<rparr>)
         else Inl NilPointerDereference)) \<and>
     (healthy (errWS s1) \<longleftrightarrow> CutType (heap s1 a) = 0 \<or>
        \<not> rotatelogs_fails env (rotation_args (heap s1 a) (ErrorFileName (heap s1 a)))) \<and>
     (healthy (warnWS s1) \<longleftrightarrow> CutType (heap s1 a) = 0 \<or>
        \<not> rotatelogs_fails env (rotation_args (heap s1 a) (WarnFileName (heap s1 a)))) \<and>
     (healthy (infoWS s1) \<longleftrightarrow> CutType (heap s1 a) = 0 \<or>
        \<not> rotatelogs_fails env (rotation_args (heap s1 a) (InfoFileName (heap s1 a)))) \<and>
     (healthy (debugWS s1) \<longleftrightarrow> CutType (heap s1 a) = 0 \<or>
        \<not> rotatelogs_fails env (rotation_args (heap s1 a) (DebugFileName (heap s1 a))))"
  using error_call [OF assms] by blast

theorem error_record_console_sinks_witness:
  "\<not> inited (logger dev_state) \<and>
   (\<exists>s1. InitLogger example_env [Some 1] dev_state = Inr s1 \<and> Opts (logger s1) = Some 1 \<and>
      Development (heap s1 1) \<and> CutType (heap s1 1) = 0 \<and>
      Level (zapConfig (logger s1)) = Some DebugLevel \<and>
      count_list (targets s1 ErrorLevel) Stderr = 1 \<and>
      count_list (targets s1 ErrorLevel) Stdout = 3 \<and>
      Error ''disk full'' s1 =
        Inr (s1\<lparr>written := written s1 @
               log_lines (accepting (file_cores s1 @ console_cores) DebugLevel ErrorLevel)
                 ErrorLevel ''disk full''\<rparr>))"
proof -
  have f: "\<not> inited (logger dev_state)"
    by (simp add: example_fresh)
  from dev_state_run obtain s1 where
    r: "InitLogger example_env [Some 1] dev_state = Inr s1" and o: "Opts (logger s1) = Some 1"
    and h: "heap s1 1 = loadCfg_defaults example_env (zeroOptions\<lparr>Development := True\<rparr>)"
    by blast
  have d: "Development (heap s1 1)" and c: "CutType (heap s1 1) = 0"
    unfolding h by (simp_all add: defaults_kept zeroOptions_def)
  from InitLogger_fresh [OF f r] have
    z: "zapConfig (logger s1) = loadCfg_zapConfig (zeroOptions\<lparr>Development := True\<rparr>)"
    by (auto simp: example_heaps)
  have l: "Level (zapConfig (logger s1)) = Some DebugLevel"
    by (simp add: z example_levels)
  from error_record_console_sinks [OF f r o d] l c have
    "count_list (targets s1 ErrorLevel) Stderr = 1"
    "count_list (targets s1 ErrorLevel) Stdout = 3"
    "Error ''disk full'' s1 =
        Inr (s1\<lparr>written := written s1 @
               log_lines (accepting (file_cores s1 @ console_cores) DebugLevel ErrorLevel)
                 ErrorLevel ''disk full''\<rparr>)"
    by (auto simp: levels_distinct)
  then show ?thesis using f r o d c l by blast
qed

text \<open>
  C1, as the specification states it, fails: with the development flag set and no level
  given, an error call writes three lines of error level, with its own message, to
  stdout.
\<close>

theorem error_record_on_stdout_counterexample:
  "Development (heap dev_state 1) \<and>
   count_list
     (written_of (and_then (InitLogger example_env [Some 1] dev_state) (Error ''disk full'')))
     (Stdout, ConsoleEncoder ((EncoderConfig NewDevelopmentConfig)\<lparr>EncodeTime := timeEncoder\<rparr>),
      ErrorLevel, ''disk full'') = 3"
proof -
  have f: "\<not> inited (logger dev_state)"
    by (simp add: example_fresh)
  have p: "(if [Some 1] = [] then Opts (logger dev_state) else hd [Some (1::nat)]) = Some 1"
    by simp
  have lv: "Level (loadCfg_zapConfig (heap dev_state 1)) = Some DebugLevel"
    by (simp add: example_heaps example_levels)
  from dev_state_run obtain s1 where
    r: "InitLogger example_env [Some 1] dev_state = Inr s1" and o: "Opts (logger s1) = Some 1"
    and h: "heap s1 1 = loadCfg_defaults example_env (zeroOptions\<lparr>Development := True\<rparr>)"
    by blast
  have d: "Development (heap s1 1)" and c: "CutType (heap s1 1) = 0"
    unfolding h by (simp_all add: defaults_kept zeroOptions_def)
  have l: "Level (loadCfg_zapConfig (heap s1 1)) = Some DebugLevel"
    unfolding h by (simp add: zapConfig_defaults example_levels)
  have "\<exists>cs. written s1 =
          written dev_state @ log_lines cs InfoLevel ''[initLogger] zap plugin initializing completed''"
    using r unfolding InitLogger_fresh_result [OF f p lv] by (auto split: if_splits)
  then obtain cs where
    w1: "written s1 = log_lines cs InfoLevel ''[initLogger] zap plugin initializing completed''"
    by (auto simp: dev_state_def package_init_def)
  from error_call [OF f r o d] l c have
    e: "Error ''disk full'' s1 =
        Inr (s1\<lparr>written := written s1 @
               log_lines (accepting (file_cores s1 @ console_cores) DebugLevel ErrorLevel)
                 ErrorLevel ''disk full''\<rparr>)"
    by (auto simp: levels_distinct)
  from fresh_targets [OF f r] have
    n: "\<forall>c\<in>set (file_cores s1). out c \<noteq> Stdout"
    by auto
  then have n': "\<forall>c\<in>set (accepting (file_cores s1) DebugLevel ErrorLevel). out c \<noteq> Stdout"
    using accepting_subset by blast
  have x: "and_then (InitLogger example_env [Some 1] dev_state) (Error ''disk full'') =
        Inr (s1\<lparr>written := written s1 @
               log_lines (accepting (file_cores s1 @ console_cores) DebugLevel ErrorLevel)
                 ErrorLevel ''disk full''\<rparr>)"
    unfolding and_then_def r using e by simp
  have "count_list
     (written_of (and_then (InitLogger example_env [Some 1] dev_state) (Error ''disk full'')))
     (Stdout, ConsoleEncoder ((EncoderConfig NewDevelopmentConfig)\<lparr>EncodeTime := timeEncoder\<rparr>),
      ErrorLevel, ''disk full'') = 3"
    unfolding x
    by (simp add: written_of_def w1 accepting_append log_lines_append
        count_log_lines_other_level levels_distinct count_log_lines_other_sink [OF n']
        console_error_lines_at_debug)
  then show ?thesis
    by (simp add: example_heaps)
qed

end
